theory Spec2Isabelle
  imports Main "HOL-Library.Word"
begin

section \<open>The disk image engine of CiderPress: data model\<close>

text \<open>
  A shallow embedding of the \<open>DiskImg\<close> class (file \<open>DiskImg.cpp\<close>): the enumerations,
  the object's members, and the member functions for sector addressing, block and sector
  I/O, dirty tracking, flushing, file and filesystem analysis, format override and
  create-time validation.

  Conventions of the embedding.
  \<^item> C integers (\<open>int\<close>, \<open>long\<close>, \<open>di_off_t\<close>) are mathematical integers: every product
    formed below is an offset into the image and the embedding describes the code as long
    as such an offset fits the C type that holds it.
  \<^item> \<open>assert\<close> is compiled out, as in a release build; the code that follows a failed
    assertion is modelled as written.
  \<^item> A function that returns a \<open>DIError\<close> and writes results through pointers returns the
    error together with the written values.
  \<^item> A function whose C execution may not return normally (a null pointer is followed, or
    a pointer chain never ends) has an \<open>option\<close> result; \<open>None\<close> is "does not return".
\<close>

type_synonym byte = "8 word"

datatype DIError =
    kDIErrNone
  | kDIErrAccessDenied
  | kDIErrAlreadyOpen
  | kDIErrBadChecksum
  | kDIErrBadFileFormat
  | kDIErrBadOrdering
  | kDIErrEOF
  | kDIErrFileArchive
  | kDIErrFilesystemNotFound
  | kDIErrGeneric
  | kDIErrInternal
  | kDIErrInvalidArg
  | kDIErrInvalidBlock
  | kDIErrInvalidCreateReq
  | kDIErrInvalidSector
  | kDIErrInvalidTrack
  | kDIErrMalloc
  | kDIErrOddLength
  | kDIErrReadFailed
  | kDIErrUnrecognizedFileFmt
  | kDIErrUnsupportedAccess
  | kDIErrUnsupportedFSFmt
  | kDIErrUnsupportedPhysicalFmt
  | kDIErrWriteFailed

datatype OuterFormat =
    kOuterFormatUnknown | kOuterFormatNone | kOuterFormatCompress
  | kOuterFormatGzip | kOuterFormatBzip2 | kOuterFormatZip

datatype FileFormat =
    kFileFormatUnknown | kFileFormatUnadorned | kFileFormat2MG | kFileFormatDiskCopy42
  | kFileFormatDiskCopy60 | kFileFormatSim2eHDV | kFileFormatTrackStar | kFileFormatFDI
  | kFileFormatNuFX | kFileFormatDDD | kFileFormatDDDDeluxe

datatype PhysicalFormat =
    kPhysicalFormatUnknown | kPhysicalFormatSectors | kPhysicalFormatNib525_6656
  | kPhysicalFormatNib525_6384 | kPhysicalFormatNib525_Var

datatype SectorOrder =
    kSectorOrderUnknown | kSectorOrderProDOS | kSectorOrderDOS | kSectorOrderCPM
  | kSectorOrderPhysical

datatype FSFormat =
    kFormatUnknown | kFormatProDOS | kFormatDOS33 | kFormatDOS32 | kFormatPascal
  | kFormatMacHFS | kFormatMacMFS | kFormatLisa | kFormatCPM | kFormatMSDOS
  | kFormatISO9660 | kFormatRDOS33 | kFormatRDOS32 | kFormatRDOS3
  | kFormatGenericPhysicalOrd | kFormatGenericProDOSOrd | kFormatGenericDOSOrd
  | kFormatGenericCPMOrd | kFormatUNIDOS | kFormatOzDOS | kFormatCFFA4 | kFormatCFFA8
  | kFormatMacPart | kFormatMicroDrive | kFormatFocusDrive | kFormatGutenberg

datatype NibbleEnc = kNibbleEnc44 | kNibbleEnc53 | kNibbleEnc62

datatype NibbleSpecial =
    kNibbleSpecialNone | kNibbleSpecialMuse | kNibbleSpecialSkipFirstAddrByte

datatype FlushMode = kFlushUnknown | kFlushFastOnly | kFlushAll

datatype NoteType = kNoteInfo | kNoteWarning

record NibbleDescr =
  description :: string
  numSectors :: int
  addrProlog :: "byte list"
  addrEpilog :: "byte list"
  addrChecksumSeed :: byte
  addrVerifyChecksum :: bool
  addrVerifyTrack :: bool
  addrEpilogVerifyCount :: int
  dataProlog :: "byte list"
  dataEpilog :: "byte list"
  dataChecksumSeed :: byte
  dataVerifyChecksum :: bool
  dataEpilogVerifyCount :: int
  encoding :: NibbleEnc
  special :: NibbleSpecial

text \<open>
  Modelled from the spec: the class \<open>GenericFD\<close> is declared outside the files at hand.
  Section 4.1 of the specification (ByteSource) describes it as a random-access byte
  stream with \<open>read(offset, len)\<close>, \<open>write(offset, bytes)\<close> and \<open>length()\<close>; the model is
  the fixed-length in-memory variant. \<open>Seek\<close> accepts the positions from 0 to the length,
  \<open>Read\<close> and \<open>Write\<close> need the whole range inside the stream, and a read-only stream
  refuses writes. The position is handed from \<open>Seek\<close> to the transfer that follows it
  instead of being stored.
\<close>

record GenericFD =
  gfData :: "byte list"
  gfReadOnly :: bool

definition GFD_Seek :: "GenericFD \<Rightarrow> int \<Rightarrow> DIError" where
  "GFD_Seek g off =
     (if off < 0 \<or> int (length (gfData g)) < off then kDIErrInvalidArg else kDIErrNone)"

definition GFD_Read :: "GenericFD \<Rightarrow> int \<Rightarrow> int \<Rightarrow> DIError \<times> byte list" where
  "GFD_Read g pos size' =
     (if size' < 0 \<or> int (length (gfData g)) < pos + size' then (kDIErrEOF, [])
      else (kDIErrNone, take (nat size') (drop (nat pos) (gfData g))))"

definition GFD_Write :: "GenericFD \<Rightarrow> int \<Rightarrow> byte list \<Rightarrow> DIError \<times> GenericFD" where
  "GFD_Write g pos bs =
     (if gfReadOnly g then (kDIErrAccessDenied, g)
      else if int (length (gfData g)) < pos + int (length bs) then (kDIErrWriteFailed, g)
      else (kDIErrNone,
            g\<lparr>gfData := take (nat pos) (gfData g) @ bs
                          @ drop (nat pos + length bs) (gfData g)\<rparr>))"

text \<open>
  The wrapper classes (\<open>ImageWrapper\<close>, \<open>OuterWrapper\<close> and their subclasses) are declared
  outside the files at hand. An object of such a class is the record of the behaviour of
  the virtual functions that \<open>DiskImg\<close> calls on it.
\<close>

record PrepVars =
  pvLength :: int
  pvPhysical :: PhysicalFormat
  pvOrder :: SectorOrder
  pvDOSVolumeNum :: int
  pvBadBlockMap :: "int set option"
  pvDataGFD :: "GenericFD option"

record ImageWrapper =
  iwHasFastFlush :: bool
  iwIsDamaged :: bool
  iwPrep :: "GenericFD \<Rightarrow> int \<Rightarrow> bool \<Rightarrow> PrepVars \<Rightarrow> DIError \<times> PrepVars \<times> bool"
    \<comment> \<open>\<open>Prep(pGFD, wrappedLength, readOnly, &length, &physical, &order, &dosVolumeNum,
        &pBadBlockMap, &pDataGFD)\<close>: error, the six variables, and what \<open>IsDamaged\<close> says afterwards\<close>
  iwFlush :: "GenericFD \<Rightarrow> GenericFD \<Rightarrow> int \<Rightarrow> int \<Rightarrow> DIError \<times> GenericFD \<times> int"
    \<comment> \<open>\<open>Flush(pWrapperGFD, pDataGFD, dataLen, &wrappedLen)\<close>: error, wrapper stream, wrapped length\<close>

record OuterWrapper =
  owHasFastFlush :: bool
  owIsDamaged :: bool
  owGetExtension :: "string option"
  owLoad :: "GenericFD \<Rightarrow> int \<Rightarrow> bool \<Rightarrow> int \<Rightarrow> DIError \<times> int \<times> GenericFD option \<times> bool"
    \<comment> \<open>\<open>Load(pOuterGFD, outerLength, readOnly, &wrapperLength, &pNewGFD)\<close>: error, wrapped
        length, new stream, and what \<open>IsDamaged\<close> says afterwards\<close>
  owSave :: "GenericFD \<Rightarrow> GenericFD \<Rightarrow> int \<Rightarrow> DIError \<times> GenericFD"
    \<comment> \<open>\<open>Save(pOuterGFD, pWrapperGFD, wrapperLength)\<close>: error, outer stream\<close>

type_synonym addr = nat

record DiskImg =
  fOuterFormat :: OuterFormat
  fFileFormat :: FileFormat
  fPhysical :: PhysicalFormat
  fpNibbleDescr :: "NibbleDescr option"
  fOrder :: SectorOrder
  fFormat :: FSFormat
  fFileSysOrder :: SectorOrder
  fSectorPairing :: bool
  fSectorPairOffset :: int
  fpOuterGFD :: "GenericFD option"
  fpWrapperGFD :: "GenericFD option"
  fpDataGFD :: "GenericFD option"
  fpOuterWrapper :: "OuterWrapper option"
  fpImageWrapper :: "ImageWrapper option"
  fpParentImg :: "addr option"
  fDOSVolumeNum :: int
  fOuterLength :: int
  fWrappedLength :: int
  fLength :: int
  fExpandable :: bool
  fReadOnly :: bool
  fDirty :: bool
  fHasSectors :: bool
  fHasBlocks :: bool
  fHasNibbles :: bool
  fNumTracks :: int
  fNumSectPerTrack :: int
  fNumBlocks :: int
  fNotes :: "string option"
  fpBadBlockMap :: "int set option"

text \<open>The objects live in a heap; a \<open>DiskImg*\<close> is an address or nil (\<open>None\<close>).\<close>

type_synonym heap = "addr \<Rightarrow> DiskImg"

definition kSectorSize :: int where "kSectorSize = 256"
definition kBlockSize :: int where "kBlockSize = 512"
definition kVolumeNumNotSet :: int where "kVolumeNumNotSet = -1"

text \<open>The constructor \<open>DiskImg::DiskImg\<close>.\<close>

definition DiskImg_new :: DiskImg where
  "DiskImg_new =
     \<lparr> fOuterFormat = kOuterFormatUnknown, fFileFormat = kFileFormatUnknown,
       fPhysical = kPhysicalFormatUnknown, fpNibbleDescr = None,
       fOrder = kSectorOrderUnknown, fFormat = kFormatUnknown,
       fFileSysOrder = kSectorOrderUnknown, fSectorPairing = False,
       fSectorPairOffset = -1, fpOuterGFD = None, fpWrapperGFD = None, fpDataGFD = None,
       fpOuterWrapper = None, fpImageWrapper = None, fpParentImg = None,
       fDOSVolumeNum = kVolumeNumNotSet, fOuterLength = -1, fWrappedLength = -1,
       fLength = -1, fExpandable = False, fReadOnly = True, fDirty = False,
       fHasSectors = False, fHasBlocks = False, fHasNibbles = False,
       fNumTracks = -1, fNumSectPerTrack = -1, fNumBlocks = -1,
       fNotes = None, fpBadBlockMap = None \<rparr>"

text \<open>
  The inline predicates \<open>IsSectorFormat\<close> and \<open>IsNibbleFormat\<close> are declared in the class
  header, outside the files at hand; they are modelled after their names and their uses
  here (\<open>fPhysical != kPhysicalFormatSectors\<close> reports "nibble images").
\<close>

definition IsSectorFormat :: "PhysicalFormat \<Rightarrow> bool" where
  "IsSectorFormat p = (p = kPhysicalFormatSectors)"

definition IsNibbleFormat :: "PhysicalFormat \<Rightarrow> bool" where
  "IsNibbleFormat p =
     (p = kPhysicalFormatNib525_6656 \<or> p = kPhysicalFormatNib525_6384
      \<or> p = kPhysicalFormatNib525_Var)"

section \<open>Sector order conversion\<close>

definition raw2dos :: "int list" where
  "raw2dos = [0, 7, 14, 6, 13, 5, 12, 4, 11, 3, 10, 2, 9, 1, 8, 15]"
definition dos2raw :: "int list" where
  "dos2raw = [0, 13, 11, 9, 7, 5, 3, 1, 14, 12, 10, 8, 6, 4, 2, 15]"
definition raw2prodos :: "int list" where
  "raw2prodos = [0, 8, 1, 9, 2, 10, 3, 11, 4, 12, 5, 13, 6, 14, 7, 15]"
definition prodos2raw :: "int list" where
  "prodos2raw = [0, 2, 4, 6, 8, 10, 12, 14, 1, 3, 5, 7, 9, 11, 13, 15]"
definition raw2cpm :: "int list" where
  "raw2cpm = [0, 11, 6, 1, 12, 7, 2, 13, 8, 3, 14, 9, 4, 15, 10, 5]"
definition cpm2raw :: "int list" where
  "cpm2raw = [0, 3, 6, 9, 12, 15, 2, 5, 8, 11, 14, 1, 4, 7, 10, 13]"

text \<open>
  A C array read \<open>t[i]\<close>. The code reads the tables at an index it asserts to lie in
  \<open>0..15\<close>; outside that range neither C nor this definition says what is read.
\<close>

definition tbl :: "int list \<Rightarrow> int \<Rightarrow> int" where
  "tbl t i = t ! nat i"

text \<open>The two \<open>switch\<close> statements of \<open>CalcSectorAndOffset\<close>.\<close>

definition toRawSector :: "SectorOrder \<Rightarrow> int \<Rightarrow> int" where
  "toRawSector fsOrder sector =
     (case fsOrder of
        kSectorOrderProDOS \<Rightarrow> tbl prodos2raw sector
      | kSectorOrderDOS \<Rightarrow> tbl dos2raw sector
      | kSectorOrderCPM \<Rightarrow> tbl cpm2raw sector
      | kSectorOrderPhysical \<Rightarrow> sector
      | kSectorOrderUnknown \<Rightarrow> sector)"

definition toImageSector :: "SectorOrder \<Rightarrow> int \<Rightarrow> int" where
  "toImageSector imageOrder newSector =
     (case imageOrder of
        kSectorOrderProDOS \<Rightarrow> tbl raw2prodos newSector
      | kSectorOrderDOS \<Rightarrow> tbl raw2dos newSector
      | kSectorOrderCPM \<Rightarrow> tbl raw2cpm newSector
      | kSectorOrderPhysical \<Rightarrow> newSector
      | kSectorOrderUnknown \<Rightarrow> newSector)"

text \<open>
  \<open>DiskImg::CalcSectorAndOffset\<close>. The result is the error, or the pair written to
  \<open>*pOffset\<close> and \<open>*pNewSector\<close>. In the last branch \<open>newSector\<close> keeps its initial -1.
\<close>

definition CalcSectorAndOffset ::
  "DiskImg \<Rightarrow> int \<Rightarrow> int \<Rightarrow> SectorOrder \<Rightarrow> SectorOrder \<Rightarrow> DIError + (int \<times> int)" where
  "CalcSectorAndOffset img track sector imageOrder fsOrder =
     (if \<not> fHasSectors img then Inl kDIErrUnsupportedAccess
      else if track < 0 \<or> track \<ge> fNumTracks img then Inl kDIErrInvalidTrack
      else if sector < 0 \<or> sector \<ge> fNumSectPerTrack img then Inl kDIErrInvalidSector
      else if fNumSectPerTrack img = 16 \<or> fNumSectPerTrack img = 32 then
        (let (offset, sector) =
           (if fSectorPairing img then
              (let track = track * 2;
                   (track, sector) =
                     (if sector \<ge> 16 then (track + 1, sector - 16) else (track, sector));
                   offset = track * fNumSectPerTrack img * kSectorSize;
                   sector = sector * 2 + fSectorPairOffset img
               in if sector \<ge> 16 then (offset + 16 * kSectorSize, sector - 16)
                  else (offset, sector))
            else
              (let offset = track * fNumSectPerTrack img * kSectorSize
               in if sector \<ge> 16 then (offset + 16 * kSectorSize, sector - 16)
                  else (offset, sector)));
             newSector = toRawSector fsOrder sector;
             newSector = toImageSector imageOrder newSector
         in Inr (offset + newSector * kSectorSize, newSector))
      else if fNumSectPerTrack img = 13 then
        (let offset = track * fNumSectPerTrack img * kSectorSize;
             newSector = sector
         in Inr (offset + newSector * kSectorSize, newSector))
      else
        (let offset = track * fNumSectPerTrack img * kSectorSize
         in Inr (offset + sector * kSectorSize, -1)))"

text \<open>
  The specification's address translation (section 4.4): \<open>fs_to_raw[fs_order]\<close> takes the
  logical sector to the raw one, \<open>raw_to_image[image_order]\<close> takes the raw one to the
  stored one; four orders, "physical" being the identity.
\<close>

fun fs_to_raw :: "SectorOrder \<Rightarrow> int \<Rightarrow> int" where
  "fs_to_raw kSectorOrderDOS s = [0, 13, 11, 9, 7, 5, 3, 1, 14, 12, 10, 8, 6, 4, 2, 15] ! nat s"
| "fs_to_raw kSectorOrderProDOS s = [0, 2, 4, 6, 8, 10, 12, 14, 1, 3, 5, 7, 9, 11, 13, 15] ! nat s"
| "fs_to_raw kSectorOrderCPM s = [0, 3, 6, 9, 12, 15, 2, 5, 8, 11, 14, 1, 4, 7, 10, 13] ! nat s"
| "fs_to_raw _ s = s"

fun raw_to_image :: "SectorOrder \<Rightarrow> int \<Rightarrow> int" where
  "raw_to_image kSectorOrderDOS r = [0, 7, 14, 6, 13, 5, 12, 4, 11, 3, 10, 2, 9, 1, 8, 15] ! nat r"
| "raw_to_image kSectorOrderProDOS r = [0, 8, 1, 9, 2, 10, 3, 11, 4, 12, 5, 13, 6, 14, 7, 15] ! nat r"
| "raw_to_image kSectorOrderCPM r = [0, 11, 6, 1, 12, 7, 2, 13, 8, 3, 14, 9, 4, 15, 10, 5] ! nat r"
| "raw_to_image _ r = r"

definition stored_sector :: "SectorOrder \<Rightarrow> SectorOrder \<Rightarrow> int \<Rightarrow> int" where
  "stored_sector imageOrder fsOrder s = raw_to_image imageOrder (fs_to_raw fsOrder s)"

section \<open>Block, track and sector I/O\<close>

text \<open>
  A read stores bytes through its \<open>buf\<close> argument. The model of a reading function takes
  whether \<open>buf\<close> is nil and returns, with the error, the bytes it has stored, in the order
  of their addresses from \<open>buf\<close> on; the empty list means that nothing was transferred.
  A write takes the bytes at \<open>buf\<close>, or \<open>None\<close> for a nil pointer.
\<close>

datatype outbuf = NilBuf | OutBuf

text \<open>
  C division of integers truncates toward zero and does not return on a zero divisor.
\<close>

definition c_div :: "int \<Rightarrow> int \<Rightarrow> int option" where
  "c_div a b = (if b = 0 then None else Some (sgn a * sgn b * (\<bar>a\<bar> div \<bar>b\<bar>)))"

text \<open>\<open>DiskImg::IsLinearBlocks\<close>.\<close>

definition IsLinearBlocks :: "DiskImg \<Rightarrow> SectorOrder \<Rightarrow> SectorOrder \<Rightarrow> bool" where
  "IsLinearBlocks img imageOrder fsOrder =
     (IsSectorFormat (fPhysical img) \<and> fHasBlocks img \<and> imageOrder = fsOrder)"

text \<open>
  \<open>DiskImg::CheckForBadBlocks\<close>; the bad block map is the set of the blocks whose bit is
  set. The \<open>for\<close> loop runs \<open>i\<close> from \<open>startBlock\<close> up to \<open>startBlock + numBlocks\<close>.
\<close>

function CheckForBadBlocks_loop :: "int set \<Rightarrow> int \<Rightarrow> int \<Rightarrow> bool" where
  "CheckForBadBlocks_loop m i hi =
     (if i < hi then (if i \<in> m then True else CheckForBadBlocks_loop m (i + 1) hi)
      else False)"
  by pat_completeness auto
termination
  by (relation "measure (\<lambda>(m, i, hi). nat (hi - i))") auto

declare CheckForBadBlocks_loop.simps [simp del]

definition CheckForBadBlocks :: "DiskImg \<Rightarrow> int \<Rightarrow> int \<Rightarrow> bool" where
  "CheckForBadBlocks img startBlock numBlocks =
     (case fpBadBlockMap img of
        None \<Rightarrow> False
      | Some m \<Rightarrow> CheckForBadBlocks_loop m startBlock (startBlock + numBlocks))"

text \<open>\<open>DiskImg::CopyBytesOut\<close>, the lowest-level read.\<close>

definition CopyBytesOut :: "DiskImg \<Rightarrow> int \<Rightarrow> int \<Rightarrow> (DIError \<times> byte list) option" where
  "CopyBytesOut img offset size' =
     (case fpDataGFD img of
        None \<Rightarrow> None
      | Some g \<Rightarrow>
          (let dierr = GFD_Seek g offset in
           if dierr \<noteq> kDIErrNone then Some (dierr, [])
           else (let (dierr, bs) = GFD_Read g offset size' in
                 if dierr \<noteq> kDIErrNone then Some (dierr, bs)
                 else Some (kDIErrNone, bs))))"

text \<open>
  The nibble codec (\<open>ReadNibbleSector\<close>, \<open>WriteNibbleSector\<close>) is in another file; the
  functions that call it take it as a parameter. The track cache it keeps is not visible
  in the results of the functions here, so a read leaves the image as it is.
\<close>

type_synonym read_nibble_sector =
  "DiskImg \<Rightarrow> int \<Rightarrow> int \<Rightarrow> NibbleDescr option \<Rightarrow> DIError \<times> byte list"

text \<open>\<open>DiskImg::ReadTrackSectorSwapped\<close>.\<close>

definition ReadTrackSectorSwapped ::
  "read_nibble_sector \<Rightarrow> DiskImg \<Rightarrow> int \<Rightarrow> int \<Rightarrow> outbuf \<Rightarrow> SectorOrder \<Rightarrow> SectorOrder
     \<Rightarrow> (DIError \<times> byte list) option" where
  "ReadTrackSectorSwapped ReadNibbleSector img track sector buf imageOrder fsOrder =
     (if buf = NilBuf then Some (kDIErrInvalidArg, [])
      else case CalcSectorAndOffset img track sector imageOrder fsOrder of
        Inl dierr \<Rightarrow> Some (dierr, [])
      | Inr (offset, newSector) \<Rightarrow>
          if IsSectorFormat (fPhysical img) then CopyBytesOut img offset kSectorSize
          else if IsNibbleFormat (fPhysical img) then
            Some (ReadNibbleSector img track newSector (fpNibbleDescr img))
          else Some (kDIErrInternal, []))"

text \<open>\<open>DiskImg::ReadBlockSwapped\<close>.\<close>

definition ReadBlockSwapped ::
  "read_nibble_sector \<Rightarrow> DiskImg \<Rightarrow> int \<Rightarrow> outbuf \<Rightarrow> SectorOrder \<Rightarrow> SectorOrder
     \<Rightarrow> (DIError \<times> byte list) option" where
  "ReadBlockSwapped ReadNibbleSector img block buf imageOrder fsOrder =
     (if \<not> fHasBlocks img then Some (kDIErrUnsupportedAccess, [])
      else if block < 0 \<or> block \<ge> fNumBlocks img then Some (kDIErrInvalidBlock, [])
      else if buf = NilBuf then Some (kDIErrInvalidArg, [])
      else if CheckForBadBlocks img block 1 then Some (kDIErrReadFailed, [])
      else if fHasSectors img \<and> \<not> IsLinearBlocks img imageOrder fsOrder then
        (case c_div (fNumSectPerTrack img) 2 of
           None \<Rightarrow> None
         | Some half \<Rightarrow>
         (case c_div block half of
            None \<Rightarrow> None
          | Some track \<Rightarrow>
            (let blkInTrk = block - track * half in
             case ReadTrackSectorSwapped ReadNibbleSector img track (blkInTrk * 2) buf
                    imageOrder fsOrder of
               None \<Rightarrow> None
             | Some (dierr, bs1) \<Rightarrow>
                 if dierr \<noteq> kDIErrNone then Some (dierr, bs1)
                 else (case ReadTrackSectorSwapped ReadNibbleSector img track
                              (blkInTrk * 2 + 1) buf imageOrder fsOrder of
                         None \<Rightarrow> None
                       | Some (dierr, bs2) \<Rightarrow> Some (dierr, bs1 @ bs2)))))
      else if fHasBlocks img then CopyBytesOut img (block * kBlockSize) kBlockSize
      else Some (kDIErrInternal, []))"

text \<open>
  \<open>ReadBlock\<close> is an inline member of the class header, outside the files at hand. It is
  modelled as the call that its writing counterpart \<open>WriteBlock\<close> spells out: the swapped
  read with the image's own \<open>fOrder\<close> and \<open>fFileSysOrder\<close>.
\<close>

definition ReadBlock ::
  "read_nibble_sector \<Rightarrow> DiskImg \<Rightarrow> int \<Rightarrow> outbuf \<Rightarrow> (DIError \<times> byte list) option" where
  "ReadBlock ReadNibbleSector img block buf =
     ReadBlockSwapped ReadNibbleSector img block buf (fOrder img) (fFileSysOrder img)"

text \<open>
  The loop \<open>while (numBlocks--)\<close> of \<open>ReadBlocks\<close>; \<open>done\<close> holds the bytes stored so far.
  With a negative count the C loop goes on until a read fails.
\<close>

partial_function (option) ReadBlocks_loop ::
  "read_nibble_sector \<Rightarrow> DiskImg \<Rightarrow> int \<Rightarrow> int \<Rightarrow> outbuf \<Rightarrow> byte list
     \<Rightarrow> (DIError \<times> byte list) option" where
  "ReadBlocks_loop ReadNibbleSector img startBlock numBlocks buf done =
     (if numBlocks = 0 then Some (kDIErrNone, done)
      else case ReadBlock ReadNibbleSector img startBlock buf of
        None \<Rightarrow> None
      | Some (dierr, bs) \<Rightarrow>
          if dierr \<noteq> kDIErrNone then Some (dierr, done @ bs)
          else ReadBlocks_loop ReadNibbleSector img (startBlock + 1) (numBlocks - 1) buf
                 (done @ bs))"

text \<open>\<open>DiskImg::ReadBlocks\<close>; \<open>GetNumBlocks\<close> returns \<open>fNumBlocks\<close>.\<close>

definition ReadBlocks ::
  "read_nibble_sector \<Rightarrow> DiskImg \<Rightarrow> int \<Rightarrow> int \<Rightarrow> outbuf \<Rightarrow> (DIError \<times> byte list) option" where
  "ReadBlocks ReadNibbleSector img startBlock numBlocks buf =
     (if startBlock < 0 \<or> numBlocks + startBlock > fNumBlocks img then
        Some (kDIErrInvalidArg, [])
      else if CheckForBadBlocks img startBlock numBlocks then Some (kDIErrReadFailed, [])
      else if \<not> IsLinearBlocks img (fOrder img) (fFileSysOrder img) then
        ReadBlocks_loop ReadNibbleSector img startBlock numBlocks buf []
      else if buf = NilBuf then None
      else CopyBytesOut img (startBlock * kBlockSize) (numBlocks * kBlockSize))"

text \<open>
  The loop at the end of \<open>CopyBytesIn\<close>: \<open>while (pImg != nil)\<close> sets the flag and follows
  \<open>fpParentImg\<close>.
\<close>

partial_function (option) SetDirtyUp :: "heap \<Rightarrow> addr option \<Rightarrow> heap option" where
  "SetDirtyUp h pImg =
     (case pImg of
        None \<Rightarrow> Some h
      | Some a \<Rightarrow> SetDirtyUp (h(a := (h a)\<lparr>fDirty := True\<rparr>)) (fpParentImg (h a)))"

text \<open>
  \<open>DiskImg::CopyBytesIn\<close>, the lowest-level write, on the object at address \<open>this\<close>. The
  stream of a sub-image is a window on the stream of its parent; the model keeps the
  bytes of the window with the sub-image and does not copy them into the parent.
\<close>

definition CopyBytesIn ::
  "heap \<Rightarrow> addr \<Rightarrow> byte list option \<Rightarrow> int \<Rightarrow> int \<Rightarrow> (DIError \<times> heap) option" where
  "CopyBytesIn h this buf offset size' =
     (let img = h this in
      if fReadOnly img then Some (kDIErrAccessDenied, h)
      else case fpDataGFD img of
        None \<Rightarrow> None
      | Some g \<Rightarrow>
          (let dierr = GFD_Seek g offset in
           if dierr \<noteq> kDIErrNone then Some (dierr, h)
           else case buf of
             None \<Rightarrow> None
           | Some bs \<Rightarrow>
               (let (dierr, g') = GFD_Write g offset (take (nat size') bs) in
                if dierr \<noteq> kDIErrNone then Some (dierr, h)
                else case SetDirtyUp (h(this := img\<lparr>fpDataGFD := Some g'\<rparr>)) (Some this) of
                  None \<Rightarrow> None
                | Some h' \<Rightarrow> Some (kDIErrNone, h'))))"

type_synonym write_nibble_sector =
  "heap \<Rightarrow> addr \<Rightarrow> int \<Rightarrow> int \<Rightarrow> byte list option \<Rightarrow> NibbleDescr option
     \<Rightarrow> (DIError \<times> heap) option"

text \<open>\<open>DiskImg::WriteTrackSector\<close>.\<close>

definition WriteTrackSector ::
  "write_nibble_sector \<Rightarrow> heap \<Rightarrow> addr \<Rightarrow> int \<Rightarrow> int \<Rightarrow> byte list option
     \<Rightarrow> (DIError \<times> heap) option" where
  "WriteTrackSector WriteNibbleSector h this track sector buf =
     (let img = h this in
      if buf = None then Some (kDIErrInvalidArg, h)
      else if fReadOnly img then Some (kDIErrAccessDenied, h)
      else case CalcSectorAndOffset img track sector (fOrder img) (fFileSysOrder img) of
        Inl dierr \<Rightarrow> Some (dierr, h)
      | Inr (offset, newSector) \<Rightarrow>
          if IsSectorFormat (fPhysical img) then CopyBytesIn h this buf offset kSectorSize
          else if IsNibbleFormat (fPhysical img) then
            WriteNibbleSector h this track newSector buf (fpNibbleDescr img)
          else Some (kDIErrInternal, h))"

text \<open>\<open>DiskImg::WriteBlock\<close>; \<open>(char*)buf + kSectorSize\<close> is the buffer without its first sector.\<close>

definition WriteBlock ::
  "write_nibble_sector \<Rightarrow> heap \<Rightarrow> addr \<Rightarrow> int \<Rightarrow> byte list option
     \<Rightarrow> (DIError \<times> heap) option" where
  "WriteBlock WriteNibbleSector h this block buf =
     (let img = h this in
      if \<not> fHasBlocks img then Some (kDIErrUnsupportedAccess, h)
      else if block < 0 \<or> block \<ge> fNumBlocks img then Some (kDIErrInvalidBlock, h)
      else if buf = None then Some (kDIErrInvalidArg, h)
      else if fReadOnly img then Some (kDIErrAccessDenied, h)
      else if fHasSectors img \<and> \<not> IsLinearBlocks img (fOrder img) (fFileSysOrder img) then
        (case c_div (fNumSectPerTrack img) 2 of
           None \<Rightarrow> None
         | Some half \<Rightarrow>
         (case c_div block half of
            None \<Rightarrow> None
          | Some track \<Rightarrow>
            (let blkInTrk = block - track * half in
             case WriteTrackSector WriteNibbleSector h this track (blkInTrk * 2) buf of
               None \<Rightarrow> None
             | Some (dierr, h1) \<Rightarrow>
                 if dierr \<noteq> kDIErrNone then Some (dierr, h1)
                 else WriteTrackSector WriteNibbleSector h1 this track (blkInTrk * 2 + 1)
                        (map_option (drop (nat kSectorSize)) buf))))
      else if fHasBlocks img then CopyBytesIn h this buf (block * kBlockSize) kBlockSize
      else Some (kDIErrInternal, h))"

text \<open>The loop \<open>while (numBlocks--)\<close> of \<open>WriteBlocks\<close>.\<close>

partial_function (option) WriteBlocks_loop ::
  "write_nibble_sector \<Rightarrow> heap \<Rightarrow> addr \<Rightarrow> int \<Rightarrow> int \<Rightarrow> byte list option
     \<Rightarrow> (DIError \<times> heap) option" where
  "WriteBlocks_loop WriteNibbleSector h this startBlock numBlocks buf =
     (if numBlocks = 0 then Some (kDIErrNone, h)
      else case WriteBlock WriteNibbleSector h this startBlock buf of
        None \<Rightarrow> None
      | Some (dierr, h1) \<Rightarrow>
          if dierr \<noteq> kDIErrNone then Some (dierr, h1)
          else WriteBlocks_loop WriteNibbleSector h1 this (startBlock + 1) (numBlocks - 1)
                 (map_option (drop (nat kBlockSize)) buf))"

text \<open>\<open>DiskImg::WriteBlocks\<close>.\<close>

definition WriteBlocks ::
  "write_nibble_sector \<Rightarrow> heap \<Rightarrow> addr \<Rightarrow> int \<Rightarrow> int \<Rightarrow> byte list option
     \<Rightarrow> (DIError \<times> heap) option" where
  "WriteBlocks WriteNibbleSector h this startBlock numBlocks buf =
     (let img = h this in
      if startBlock < 0 \<or> numBlocks + startBlock > fNumBlocks img then
        Some (kDIErrInvalidArg, h)
      else if \<not> IsLinearBlocks img (fOrder img) (fFileSysOrder img) then
        WriteBlocks_loop WriteNibbleSector h this startBlock numBlocks buf
      else CopyBytesIn h this buf (startBlock * kBlockSize) (numBlocks * kBlockSize))"

section \<open>Flushing\<close>

text \<open>
  \<open>DiskImg::FlushImage\<close> on the object at address \<open>this\<close>. The result of
  \<open>fpWrapperGFD->Flush()\<close> is assigned to \<open>dierr\<close> and never read; the stream classes are
  outside the files at hand and the call is taken to leave the stream's bytes alone.
\<close>

definition FlushImage :: "heap \<Rightarrow> addr \<Rightarrow> FlushMode \<Rightarrow> (DIError \<times> heap) option" where
  "FlushImage h this mode =
     (let img = h this in
      if \<not> fDirty img then Some (kDIErrNone, h)
      else if fpDataGFD img = None then Some (kDIErrNone, h(this := img\<lparr>fDirty := False\<rparr>))
      else if mode = kFlushFastOnly \<and>
              ((fpImageWrapper img \<noteq> None \<and> \<not> iwHasFastFlush (the (fpImageWrapper img))) \<or>
               (fpOuterWrapper img \<noteq> None \<and> \<not> owHasFastFlush (the (fpOuterWrapper img))))
      then Some (kDIErrNone, h)
      else
        (let step2 =
           (case fpWrapperGFD img of
              None \<Rightarrow> Some (kDIErrNone, img)
            | Some w \<Rightarrow>
                (case (fpImageWrapper img, fpDataGFD img) of
                   (Some iw, Some d) \<Rightarrow>
                     (let (dierr, w', wrappedLen) = iwFlush iw w d (fLength img) (fWrappedLength img)
                      in Some (dierr, img\<lparr>fpWrapperGFD := Some w', fWrappedLength := wrappedLen\<rparr>))
                 | _ \<Rightarrow> None))
         in case step2 of
           None \<Rightarrow> None
         | Some (dierr, img2) \<Rightarrow>
             if dierr \<noteq> kDIErrNone then Some (dierr, h(this := img2))
             else
               (case fpOuterWrapper img2 of
                  None \<Rightarrow> Some (kDIErrNone, h(this := img2\<lparr>fDirty := False\<rparr>))
                | Some ow \<Rightarrow>
                    (case (fpOuterGFD img2, fpWrapperGFD img2) of
                       (Some og, Some w) \<Rightarrow>
                         (let (dierr, og') = owSave ow og w (fWrappedLength img2);
                              img3 = img2\<lparr>fpOuterGFD := Some og'\<rparr>
                          in if dierr \<noteq> kDIErrNone then Some (dierr, h(this := img3))
                             else Some (kDIErrNone, h(this := img3\<lparr>fDirty := False\<rparr>)))
                     | _ \<Rightarrow> None))))"

section \<open>Notes\<close>

text \<open>
  \<open>DiskImg::AddNote\<close> for a format string without conversions: the highlighted prefix,
  the text cut to the 512-byte buffer, a final newline, appended to the notes so far.
\<close>

definition AddNote :: "DiskImg \<Rightarrow> NoteType \<Rightarrow> string \<Rightarrow> DiskImg" where
  "AddNote img type msg =
     (let prefix = (case type of kNoteWarning \<Rightarrow> ''- WARNING: '' | _ \<Rightarrow> ''- '');
          maxLen = 512 - length prefix;
          buf = prefix @ take (maxLen - 1) msg;
          buf = take 510 buf;
          buf = (if length buf > 0 \<and> last buf \<noteq> CHR 0x0A then buf @ [CHR 0x0A] else buf)
      in case fNotes img of
           None \<Rightarrow> img\<lparr>fNotes := Some buf\<rparr>
         | Some notes \<Rightarrow> img\<lparr>fNotes := Some (notes @ buf)\<rparr>)"

section \<open>Analysis of the image file\<close>

text \<open>
  The wrapper classes are outside the files at hand: their static \<open>Test\<close> functions and
  their constructors are parameters of the analysis.
\<close>

datatype WrapperClass =
    Wrapper2MG | WrapperDiskCopy42 | WrapperSim2eHDV | WrapperTrackStar | WrapperFDI
  | WrapperNuFX | WrapperDDD | WrapperUnadornedSector | WrapperUnadornedNibble

record Wrappers =
  OuterGzip_Test :: "GenericFD \<Rightarrow> int \<Rightarrow> DIError"
  OuterZip_Test :: "GenericFD \<Rightarrow> int \<Rightarrow> DIError"
  OuterGzip_new :: OuterWrapper
  OuterZip_new :: OuterWrapper
  Wrapper_Test :: "WrapperClass \<Rightarrow> GenericFD \<Rightarrow> int \<Rightarrow> DIError"
  Wrapper_new :: "WrapperClass \<Rightarrow> ImageWrapper"

text \<open>\<open>strcasecmp(a, b) == 0\<close> on ASCII strings.\<close>

definition c_tolower :: "char \<Rightarrow> char" where
  "c_tolower c =
     (case map_of (zip ''ABCDEFGHIJKLMNOPQRSTUVWXYZ'' ''abcdefghijklmnopqrstuvwxyz'') c of
        Some l \<Rightarrow> l
      | None \<Rightarrow> c)"

definition strcaseeq :: "string \<Rightarrow> string \<Rightarrow> bool" where
  "strcaseeq a b = (map c_tolower a = map c_tolower b)"

text \<open>\<open>Seek(0, kSeekEnd)\<close> followed by \<open>Tell()\<close> on the modelled stream.\<close>

definition GFD_SeekEnd :: "GenericFD \<Rightarrow> DIError \<times> int" where
  "GFD_SeekEnd g = (kDIErrNone, int (length (gfData g)))"

text \<open>
  The first pass of \<open>AnalyzeImageFile\<close>: what the filename extension says. The result is
  the error of a NuFX file archive (or none), \<open>reliableExt\<close>, \<open>probableFormat\<close> and the
  object.
\<close>

definition AnalyzeImageFile_byExt ::
  "Wrappers \<Rightarrow> string \<Rightarrow> GenericFD \<Rightarrow> DiskImg \<Rightarrow> DIError \<times> bool \<times> FileFormat \<times> DiskImg" where
  "AnalyzeImageFile_byExt W ext wg img =
     (let len = fWrappedLength img; test = (\<lambda>c. Wrapper_Test W c wg len) in
      if strcaseeq ext ''2mg'' \<or> strcaseeq ext ''2img'' then
        (kDIErrNone, True,
         if test Wrapper2MG = kDIErrNone then kFileFormat2MG else kFileFormatUnknown, img)
      else if strcaseeq ext ''shk'' \<or> strcaseeq ext ''sdk'' \<or> strcaseeq ext ''bxy'' then
        (let dierr2 = test WrapperNuFX in
         if dierr2 = kDIErrNone then (kDIErrNone, True, kFileFormatNuFX, img)
         else if dierr2 = kDIErrFileArchive then (dierr2, True, kFileFormatUnknown, img)
         else (kDIErrNone, True, kFileFormatUnknown, img))
      else if strcaseeq ext ''hdv'' then
        (kDIErrNone, False,
         if test WrapperSim2eHDV = kDIErrNone then kFileFormatSim2eHDV else kFileFormatUnknown,
         img\<lparr>fExpandable := True\<rparr>)
      else if strcaseeq ext ''dsk'' \<or> strcaseeq ext ''dc'' then
        (kDIErrNone, False,
         if test WrapperDiskCopy42 = kDIErrNone then kFileFormatDiskCopy42
         else kFileFormatUnknown, img)
      else if strcaseeq ext ''ddd'' then
        (kDIErrNone, True,
         if test WrapperDDD = kDIErrNone then kFileFormatDDD else kFileFormatUnknown, img)
      else if strcaseeq ext ''app'' then
        (kDIErrNone, True,
         if test WrapperTrackStar = kDIErrNone then kFileFormatTrackStar
         else kFileFormatUnknown, img)
      else if strcaseeq ext ''fdi'' then
        (kDIErrNone, True,
         if test WrapperFDI = kDIErrNone then kFileFormatFDI else kFileFormatUnknown, img)
      else if strcaseeq ext ''img'' then
        (if test WrapperUnadornedSector = kDIErrNone then
           (kDIErrNone, False, kFileFormatUnadorned,
            img\<lparr>fPhysical := kPhysicalFormatSectors, fOrder := kSectorOrderPhysical\<rparr>)
         else (kDIErrNone, False, kFileFormatUnknown, img))
      else if strcaseeq ext ''nib'' \<or> strcaseeq ext ''raw'' then
        (if test WrapperUnadornedNibble = kDIErrNone then
           (kDIErrNone, False, kFileFormatUnadorned,
            img\<lparr>fPhysical := kPhysicalFormatNib525_6656\<rparr>)
         else (kDIErrNone, False, kFileFormatUnknown, img))
      else if strcaseeq ext ''do'' \<or> strcaseeq ext ''po'' \<or> strcaseeq ext ''d13''
              \<or> strcaseeq ext ''dc6'' then
        (if test WrapperUnadornedSector = kDIErrNone then
           (kDIErrNone, False, kFileFormatUnadorned,
            img\<lparr>fPhysical := kPhysicalFormatSectors,
                fOrder := (if strcaseeq ext ''do'' \<or> strcaseeq ext ''d13''
                           then kSectorOrderDOS else kSectorOrderProDOS)\<rparr>)
         else (kDIErrNone, False, kFileFormatUnknown, img))
      else if strcaseeq ext ''cp-win-vol'' then
        (kDIErrNone, True, kFileFormatUnadorned,
         img\<lparr>fPhysical := kPhysicalFormatSectors, fOrder := kSectorOrderProDOS\<rparr>)
      else (kDIErrNone, False, kFileFormatUnknown, img))"

text \<open>
  The second pass, taken when the extension did not settle the format and is not reliable:
  the formats are probed in turn. The result is whether the code goes to \<open>bail\<close>, the
  value of \<open>dierr\<close> (the last test assigned to it), \<open>probableFormat\<close> and the object.
\<close>

definition AnalyzeImageFile_probe ::
  "Wrappers \<Rightarrow> GenericFD \<Rightarrow> DiskImg \<Rightarrow> bool \<times> DIError \<times> FileFormat \<times> DiskImg" where
  "AnalyzeImageFile_probe W wg img =
     (let len = fWrappedLength img; test = (\<lambda>c. Wrapper_Test W c wg len);
          dierr = test WrapperNuFX in
      if dierr = kDIErrNone then (False, dierr, kFileFormatNuFX, img)
      else if dierr = kDIErrFileArchive then (True, dierr, kFileFormatUnknown, img)
      else if dierr = kDIErrBadChecksum then (True, dierr, kFileFormatUnknown, img)
      else
        (let dierr = test WrapperDiskCopy42 in
         if dierr = kDIErrNone then (False, dierr, kFileFormatDiskCopy42, img)
         else if dierr = kDIErrBadChecksum then (True, dierr, kFileFormatUnknown, img)
         else if test Wrapper2MG = kDIErrNone then (False, dierr, kFileFormat2MG, img)
         else if test WrapperDDD = kDIErrNone then (False, dierr, kFileFormatDDD, img)
         else if test WrapperSim2eHDV = kDIErrNone then
           (False, dierr, kFileFormatSim2eHDV, img)
         else if test WrapperTrackStar = kDIErrNone then
           (False, dierr, kFileFormatTrackStar, img)
         else if test WrapperFDI = kDIErrNone then (False, dierr, kFileFormatFDI, img)
         else if test WrapperUnadornedNibble = kDIErrNone then
           (False, dierr, kFileFormatUnadorned, img\<lparr>fPhysical := kPhysicalFormatNib525_6656\<rparr>)
         else if test WrapperUnadornedSector = kDIErrNone then
           (False, dierr, kFileFormatUnadorned, img\<lparr>fPhysical := kPhysicalFormatSectors\<rparr>)
         else (False, dierr, kFileFormatUnknown, img)))"

text \<open>
  The \<open>switch (probableFormat)\<close> that creates the wrapper object: the new value of
  \<open>dierr\<close>, the object with \<open>fpImageWrapper\<close> (and \<open>fReadOnly\<close> for FDI) set.
\<close>

definition AnalyzeImageFile_newWrapper ::
  "Wrappers \<Rightarrow> FileFormat \<Rightarrow> DIError \<Rightarrow> DiskImg \<Rightarrow> DIError \<times> DiskImg" where
  "AnalyzeImageFile_newWrapper W probableFormat dierr img =
     (let mk = (\<lambda>c. img\<lparr>fpImageWrapper := Some (Wrapper_new W c)\<rparr>) in
      case probableFormat of
        kFileFormat2MG \<Rightarrow> (dierr, mk Wrapper2MG)
      | kFileFormatDiskCopy42 \<Rightarrow> (dierr, mk WrapperDiskCopy42)
      | kFileFormatSim2eHDV \<Rightarrow> (dierr, mk WrapperSim2eHDV)
      | kFileFormatTrackStar \<Rightarrow> (dierr, mk WrapperTrackStar)
      | kFileFormatFDI \<Rightarrow> (dierr, (mk WrapperFDI)\<lparr>fReadOnly := True\<rparr>)
      | kFileFormatNuFX \<Rightarrow> (dierr, mk WrapperNuFX)
      | kFileFormatDDD \<Rightarrow> (dierr, mk WrapperDDD)
      | kFileFormatUnadorned \<Rightarrow>
          if IsSectorFormat (fPhysical img) then (dierr, mk WrapperUnadornedSector)
          else if IsNibbleFormat (fPhysical img) then (dierr, mk WrapperUnadornedNibble)
          else (dierr, img)
      | _ \<Rightarrow> (kDIErrUnrecognizedFileFmt, img))"

text \<open>
  The rest of \<open>AnalyzeImageFile\<close> once \<open>probableFormat\<close> is known: create the wrapper, let
  it prepare the data stream, and note a damaged checksum.
\<close>

definition AnalyzeImageFile_prep ::
  "Wrappers \<Rightarrow> GenericFD \<Rightarrow> FileFormat \<Rightarrow> DIError \<Rightarrow> DiskImg \<Rightarrow> DIError \<times> DiskImg" where
  "AnalyzeImageFile_prep W wg probableFormat dierr img =
     (let (dierr, img) = AnalyzeImageFile_newWrapper W probableFormat dierr img in
      case fpImageWrapper img of
        None \<Rightarrow> (if dierr = kDIErrNone then kDIErrGeneric else dierr, img)
      | Some iw \<Rightarrow>
          (let (dierr, pv, damaged) =
                 iwPrep iw wg (fWrappedLength img) (fReadOnly img)
                   \<lparr> pvLength = fLength img, pvPhysical = fPhysical img, pvOrder = fOrder img,
                     pvDOSVolumeNum = fDOSVolumeNum img, pvBadBlockMap = fpBadBlockMap img,
                     pvDataGFD = fpDataGFD img \<rparr>;
               img = img\<lparr> fLength := pvLength pv, fPhysical := pvPhysical pv,
                          fOrder := pvOrder pv, fDOSVolumeNum := pvDOSVolumeNum pv,
                          fpBadBlockMap := pvBadBlockMap pv, fpDataGFD := pvDataGFD pv,
                          fpImageWrapper := Some (iw\<lparr>iwIsDamaged := damaged\<rparr>) \<rparr>
           in if dierr \<noteq> kDIErrNone then (dierr, img)
              else
                (let img = (if damaged then
                              (AddNote img kNoteWarning ''File checksum didn't match.'')
                                \<lparr>fReadOnly := True\<rparr>
                            else img)
                 in (kDIErrNone, img\<lparr>fFileFormat := probableFormat\<rparr>))))"

text \<open>The part of \<open>AnalyzeImageFile\<close> from "Try to figure out what format the file is in".\<close>

definition AnalyzeImageFile_format ::
  "Wrappers \<Rightarrow> string \<Rightarrow> GenericFD \<Rightarrow> DiskImg \<Rightarrow> DIError \<times> DiskImg" where
  "AnalyzeImageFile_format W ext wg img =
     (let (dierr, reliableExt, probableFormat, img) = AnalyzeImageFile_byExt W ext wg img in
      if dierr \<noteq> kDIErrNone then (dierr, img)
      else if probableFormat \<noteq> kFileFormatUnknown then
        AnalyzeImageFile_prep W wg probableFormat dierr img
      else if reliableExt then (kDIErrBadFileFormat, img)
      else
        (let (bail, dierr, probableFormat, img) = AnalyzeImageFile_probe W wg img in
         if bail then (dierr, img)
         else AnalyzeImageFile_prep W wg probableFormat dierr img))"

text \<open>
  The part of \<open>AnalyzeImageFile\<close> that looks for a zip or gzip "wrapper wrapper": the
  error, \<open>needExtFromOuter\<close>, the extension to go on with, and the object.
\<close>

definition AnalyzeImageFile_outer ::
  "Wrappers \<Rightarrow> string \<Rightarrow> string \<Rightarrow> GenericFD \<Rightarrow> DiskImg
     \<Rightarrow> DIError \<times> bool \<times> string \<times> DiskImg" where
  "AnalyzeImageFile_outer W ext innerExt wg img =
     (if strcaseeq ext ''gz'' \<and> OuterGzip_Test W wg (fOuterLength img) = kDIErrNone then
        (kDIErrNone, False, innerExt,
         img\<lparr>fpOuterWrapper := Some (OuterGzip_new W), fOuterFormat := kOuterFormatGzip\<rparr>)
      else if strcaseeq ext ''zip'' then
        (let dierr = OuterZip_Test W wg (fOuterLength img) in
         if dierr \<noteq> kDIErrNone then (dierr, False, ext, img)
         else (kDIErrNone, True, ext,
               img\<lparr>fpOuterWrapper := Some (OuterZip_new W), fOuterFormat := kOuterFormatZip\<rparr>))
      else (kDIErrNone, False, ext, img\<lparr>fOuterFormat := kOuterFormatNone\<rparr>))"

text \<open>
  \<open>DiskImg::AnalyzeImageFile\<close>. \<open>FindExtension\<close> is outside the files at hand: \<open>ext\<close> is
  the extension of the path name without its dot (empty when there is none), \<open>innerExt\<close>
  the extension that remains when the last one is dropped (used under a \<open>.gz\<close>).
\<close>

definition AnalyzeImageFile ::
  "Wrappers \<Rightarrow> string \<Rightarrow> string \<Rightarrow> DiskImg \<Rightarrow> (DIError \<times> DiskImg) option" where
  "AnalyzeImageFile W ext innerExt img =
     (case fpWrapperGFD img of
        None \<Rightarrow> None
      | Some wg \<Rightarrow>
          (let img = img\<lparr>fLength := -1\<rparr>;
               (dierr, pos) = GFD_SeekEnd wg in
           if dierr \<noteq> kDIErrNone then Some (dierr, img)
           else
             (let img = img\<lparr>fWrappedLength := pos, fOuterLength := pos\<rparr> in
              if fWrappedLength img = 0 then Some (kDIErrUnrecognizedFileFmt, img)
              else
                (let (dierr, needExtFromOuter, ext, img) =
                       AnalyzeImageFile_outer W ext innerExt wg img
                 in
                 if dierr \<noteq> kDIErrNone then Some (dierr, img)
                 else if fOuterFormat img = kOuterFormatNone then
                   Some (AnalyzeImageFile_format W ext wg img)
                 else
                   (case fpOuterWrapper img of
                      None \<Rightarrow> None
                    | Some ow \<Rightarrow>
                        (let (dierr, wrappedLen, pNewGFD, damaged) =
                               owLoad ow wg (fOuterLength img) (fReadOnly img)
                                 (fWrappedLength img);
                             img = img\<lparr>fWrappedLength := wrappedLen,
                                       fpOuterWrapper := Some (ow\<lparr>owIsDamaged := damaged\<rparr>)\<rparr>
                         in
                         if dierr \<noteq> kDIErrNone then Some (dierr, img)
                         else
                           (let img = (if damaged then
                                         (AddNote img kNoteWarning
                                            ''The zip/gzip wrapper appears to be damaged.'')
                                           \<lparr>fReadOnly := True\<rparr>
                                       else img);
                                img = img\<lparr>fpOuterGFD := fpWrapperGFD img,
                                          fpWrapperGFD := pNewGFD\<rparr>;
                                ext = (if needExtFromOuter then
                                         (case owGetExtension ow of None \<Rightarrow> [] | Some e \<Rightarrow> e)
                                       else ext)
                            in case pNewGFD of
                                 None \<Rightarrow> None
                               | Some wg' \<Rightarrow> Some (AnalyzeImageFile_format W ext wg' img))))))))"

section \<open>Analysis of the filesystem\<close>

text \<open>\<open>DiskImg::CalcFSSectorOrder\<close>.\<close>

definition CalcFSSectorOrder :: "DiskImg \<Rightarrow> SectorOrder" where
  "CalcFSSectorOrder img =
     (if fFormat img = kFormatUnknown \<or> fOrder img = kSectorOrderUnknown then fOrder img
      else case fFormat img of
        kFormatGenericPhysicalOrd \<Rightarrow> kSectorOrderPhysical
      | kFormatRDOS32 \<Rightarrow> kSectorOrderPhysical
      | kFormatRDOS3 \<Rightarrow> kSectorOrderPhysical
      | kFormatGenericDOSOrd \<Rightarrow> kSectorOrderDOS
      | kFormatDOS33 \<Rightarrow> kSectorOrderDOS
      | kFormatDOS32 \<Rightarrow> kSectorOrderDOS
      | kFormatUNIDOS \<Rightarrow> kSectorOrderDOS
      | kFormatOzDOS \<Rightarrow> kSectorOrderDOS
      | kFormatGenericCPMOrd \<Rightarrow> kSectorOrderCPM
      | kFormatCPM \<Rightarrow> kSectorOrderCPM
      | kFormatGenericProDOSOrd \<Rightarrow> kSectorOrderProDOS
      | kFormatProDOS \<Rightarrow> kSectorOrderProDOS
      | kFormatRDOS33 \<Rightarrow> kSectorOrderProDOS
      | kFormatPascal \<Rightarrow> kSectorOrderProDOS
      | kFormatMacHFS \<Rightarrow> kSectorOrderProDOS
      | kFormatMacMFS \<Rightarrow> kSectorOrderProDOS
      | kFormatLisa \<Rightarrow> kSectorOrderProDOS
      | kFormatMSDOS \<Rightarrow> kSectorOrderProDOS
      | kFormatISO9660 \<Rightarrow> kSectorOrderProDOS
      | kFormatCFFA4 \<Rightarrow> kSectorOrderProDOS
      | kFormatCFFA8 \<Rightarrow> kSectorOrderProDOS
      | kFormatMacPart \<Rightarrow> kSectorOrderProDOS
      | kFormatMicroDrive \<Rightarrow> kSectorOrderProDOS
      | kFormatFocusDrive \<Rightarrow> kSectorOrderProDOS
      | _ \<Rightarrow> fOrder img)"

text \<open>
  The filesystem classes are outside the files at hand. Their static test functions are
  a parameter: \<open>TestFS p img order format leniency\<close> is the call
  \<open>p::TestFS(this, &order, &format, leniency)\<close> and returns the error with the values left
  in \<open>order\<close> and \<open>format\<close>. \<open>DiskFSUNIDOS_Wide\<close> stands for \<open>DiskFSUNIDOS::TestWideFS\<close>.
  To tell which tests a function runs, each function returns the list of the tests it
  has called, in the order of the calls.
\<close>

datatype FSProbe =
    DiskFSMacPart | DiskFSMicroDrive | DiskFSFocusDrive | DiskFSCFFA | DiskFSFAT
  | DiskFSDOS33 | DiskFSUNIDOS_Wide | DiskFSUNIDOS | DiskFSOzDOS | DiskFSProDOS
  | DiskFSPascal | DiskFSCPM | DiskFSRDOS | DiskFSHFS

datatype Leniency = kLeniencyNot | kLeniencyVery

type_synonym test_fs =
  "FSProbe \<Rightarrow> DiskImg \<Rightarrow> SectorOrder \<Rightarrow> FSFormat \<Rightarrow> Leniency
     \<Rightarrow> DIError \<times> SectorOrder \<times> FSFormat"

text \<open>
  One arm \<open>if (p::TestFS(this, &fOrder, &fFormat, kLeniencyNot) == kDIErrNone) { body }
  else rest\<close> of the chain in \<open>AnalyzeImageFS\<close>.
\<close>

definition tryTestFS ::
  "test_fs \<Rightarrow> FSProbe \<Rightarrow> (DiskImg \<Rightarrow> DiskImg)
     \<Rightarrow> (DiskImg \<times> FSProbe list \<Rightarrow> DiskImg \<times> FSProbe list)
     \<Rightarrow> DiskImg \<times> FSProbe list \<Rightarrow> DiskImg \<times> FSProbe list" where
  "tryTestFS TestFS p body rest st =
     (case st of (img, called) \<Rightarrow>
        (case TestFS p img (fOrder img) (fFormat img) kLeniencyNot of
           (dierr, order, format) \<Rightarrow>
             (let img = img\<lparr>fOrder := order, fFormat := format\<rparr>;
                  called = called @ [p]
              in if dierr = kDIErrNone then (body img, called) else rest (img, called))))"

text \<open>The bodies that do more than log: \<open>fNumTracks /= 2\<close> truncates toward zero.\<close>

definition widen32 :: "DiskImg \<Rightarrow> DiskImg" where
  "widen32 img =
     img\<lparr>fNumSectPerTrack := 32,
         fNumTracks := sgn (fNumTracks img) * (\<bar>fNumTracks img\<bar> div 2)\<rparr>"

definition fixDOS32 :: "DiskImg \<Rightarrow> DiskImg" where
  "fixDOS32 img = (if fNumSectPerTrack img = 13 then img\<lparr>fFormat := kFormatDOS32\<rparr> else img)"

text \<open>\<open>DiskImg::AnalyzeImageFS\<close>.\<close>

definition AnalyzeImageFS :: "test_fs \<Rightarrow> DiskImg \<Rightarrow> DiskImg \<times> FSProbe list" where
  "AnalyzeImageFS TestFS img =
     (case
        (tryTestFS TestFS DiskFSMacPart id
        (tryTestFS TestFS DiskFSMicroDrive id
        (tryTestFS TestFS DiskFSFocusDrive id
        (tryTestFS TestFS DiskFSCFFA id
        (tryTestFS TestFS DiskFSFAT id
        (tryTestFS TestFS DiskFSDOS33 fixDOS32
        (tryTestFS TestFS DiskFSUNIDOS_Wide widen32
        (tryTestFS TestFS DiskFSUNIDOS widen32
        (tryTestFS TestFS DiskFSOzDOS widen32
        (tryTestFS TestFS DiskFSProDOS id
        (tryTestFS TestFS DiskFSPascal id
        (tryTestFS TestFS DiskFSCPM id
        (tryTestFS TestFS DiskFSRDOS id
        (tryTestFS TestFS DiskFSHFS id
        (\<lambda>(img, called). (img\<lparr>fFormat := kFormatUnknown\<rparr>, called))))))))))))))))
          (img, [])
      of (img, called) \<Rightarrow> (img\<lparr>fFileSysOrder := CalcFSSectorOrder img\<rparr>, called))"

text \<open>
  The specification's reading of the probe (section 4.6): the tests are attempted in a
  fixed order and the first that succeeds decides. \<open>first_success\<close> runs the tests of a
  list in order, each on the object as the failed tests before it have left it, and
  returns the test that succeeded (if any), the object and the tests called.
\<close>

definition probe_order :: "FSProbe list" where
  "probe_order =
     [DiskFSMacPart, DiskFSMicroDrive, DiskFSFocusDrive, DiskFSCFFA, DiskFSFAT, DiskFSDOS33,
      DiskFSUNIDOS_Wide, DiskFSUNIDOS, DiskFSOzDOS, DiskFSProDOS, DiskFSPascal, DiskFSCPM,
      DiskFSRDOS, DiskFSHFS]"

fun first_success ::
  "test_fs \<Rightarrow> FSProbe list \<Rightarrow> DiskImg \<Rightarrow> FSProbe list
     \<Rightarrow> FSProbe option \<times> DiskImg \<times> FSProbe list" where
  "first_success TestFS [] img called = (None, img, called)"
| "first_success TestFS (p # ps) img called =
     (case TestFS p img (fOrder img) (fFormat img) kLeniencyNot of
        (dierr, order, format) \<Rightarrow>
          if dierr = kDIErrNone then
            (Some p, img\<lparr>fOrder := order, fFormat := format\<rparr>, called @ [p])
          else first_success TestFS ps (img\<lparr>fOrder := order, fFormat := format\<rparr>)
                 (called @ [p]))"

section \<open>Format override\<close>

text \<open>The test that the \<open>switch (format)\<close> of \<open>OverrideFormat\<close> runs, if any.\<close>

definition OverrideFormat_probe :: "FSFormat \<Rightarrow> FSProbe option" where
  "OverrideFormat_probe format =
     (case format of
        kFormatDOS33 \<Rightarrow> Some DiskFSDOS33
      | kFormatDOS32 \<Rightarrow> Some DiskFSDOS33
      | kFormatProDOS \<Rightarrow> Some DiskFSProDOS
      | kFormatPascal \<Rightarrow> Some DiskFSPascal
      | kFormatMacHFS \<Rightarrow> Some DiskFSHFS
      | kFormatUNIDOS \<Rightarrow> Some DiskFSUNIDOS
      | kFormatOzDOS \<Rightarrow> Some DiskFSOzDOS
      | kFormatCFFA4 \<Rightarrow> Some DiskFSCFFA
      | kFormatCFFA8 \<Rightarrow> Some DiskFSCFFA
      | kFormatMacPart \<Rightarrow> Some DiskFSMacPart
      | kFormatMicroDrive \<Rightarrow> Some DiskFSMicroDrive
      | kFormatFocusDrive \<Rightarrow> Some DiskFSFocusDrive
      | kFormatCPM \<Rightarrow> Some DiskFSCPM
      | kFormatMSDOS \<Rightarrow> Some DiskFSFAT
      | kFormatRDOS33 \<Rightarrow> Some DiskFSRDOS
      | kFormatRDOS32 \<Rightarrow> Some DiskFSRDOS
      | kFormatRDOS3 \<Rightarrow> Some DiskFSRDOS
      | _ \<Rightarrow> None)"

text \<open>\<open>DiskImg::OverrideFormat\<close>: the error, the object, and the tests it has called.\<close>

definition OverrideFormat ::
  "test_fs \<Rightarrow> DiskImg \<Rightarrow> PhysicalFormat \<Rightarrow> FSFormat \<Rightarrow> SectorOrder
     \<Rightarrow> DIError \<times> DiskImg \<times> FSProbe list" where
  "OverrideFormat TestFS img physical format order =
     (if \<not> IsSectorFormat physical \<and> \<not> IsNibbleFormat physical then
        (kDIErrUnsupportedPhysicalFmt, img, [])
      else if physical \<noteq> fPhysical img then (kDIErrInvalidArg, img, [])
      else if physical = fPhysical img \<and> format = fFormat img \<and> order = fOrder img then
        (kDIErrNone, img, [])
      else
        (let (dierr, newOrder, newFormat, called) =
           (case OverrideFormat_probe format of
              Some p \<Rightarrow>
                (let (dierr, newOrder, newFormat) = TestFS p img order format kLeniencyVery in
                 if p = DiskFSRDOS \<and> newFormat \<noteq> format then
                   (kDIErrFilesystemNotFound, newOrder, newFormat, [p])
                 else (dierr, newOrder, newFormat, [p]))
            | None \<Rightarrow>
                if format \<in> {kFormatGenericPhysicalOrd, kFormatGenericProDOSOrd,
                              kFormatGenericDOSOrd, kFormatGenericCPMOrd, kFormatUnknown}
                then (kDIErrNone, order, format, [])
                else (kDIErrUnsupportedFSFmt, order, format, []))
         in if dierr \<noteq> kDIErrNone then (dierr, img, called)
            else if newOrder \<noteq> order then (kDIErrBadOrdering, img, called)
            else
              (let img = img\<lparr>fFormat := format, fOrder := newOrder\<rparr>
               in (kDIErrNone, img\<lparr>fFileSysOrder := CalcFSSectorOrder img\<rparr>, called))))"

section \<open>Create-time validation\<close>

text \<open>The header constant \<open>kTrackCount525\<close>: a 5.25" disk has 35 tracks.\<close>

definition kTrackCount525 :: int where "kTrackCount525 = 35"

text \<open>
  \<open>DiskImg::ValidateCreateFormat\<close>; the \<open>Get...\<close> accessors return the members. The
  checks are taken in the order of the source and each failing check returns
  \<open>kDIErrInvalidCreateReq\<close>. The checks inside \<open>if (fPhysical != kPhysicalFormatSectors)\<close>
  and the checks per file format are two predicates that say whether all of them pass.
\<close>

definition ValidateCreateFormat_nibble :: "DiskImg \<Rightarrow> bool" where
  "ValidateCreateFormat_nibble img =
     (if fOrder img \<noteq> kSectorOrderPhysical then False
      else if fHasSectors img = False \<and> fHasNibbles img = False then False
      else if fpNibbleDescr img = None \<and> fNumSectPerTrack img > 0 then False
      else if fpNibbleDescr img \<noteq> None
              \<and> numSectors (the (fpNibbleDescr img)) \<noteq> fNumSectPerTrack img then False
      else if fpNibbleDescr img \<noteq> None \<and>
              ((numSectors (the (fpNibbleDescr img)) = 13
                  \<and> encoding (the (fpNibbleDescr img)) \<noteq> kNibbleEnc53) \<or>
               (numSectors (the (fpNibbleDescr img)) = 16
                  \<and> encoding (the (fpNibbleDescr img)) \<noteq> kNibbleEnc62)) then False
      else if fNumTracks img \<noteq> kTrackCount525
              \<and> \<not> (fNumTracks img = 40 \<and> fFileFormat img = kFileFormatTrackStar) then False
      else True)"

definition ValidateCreateFormat_combination :: "DiskImg \<Rightarrow> bool" where
  "ValidateCreateFormat_combination img =
     (if fFileFormat img = kFileFormat2MG \<and>
         ((fPhysical img \<noteq> kPhysicalFormatSectors
             \<and> fPhysical img \<noteq> kPhysicalFormatNib525_6656) \<or>
          (fPhysical img = kPhysicalFormatSectors
             \<and> fOrder img \<noteq> kSectorOrderProDOS \<and> fOrder img \<noteq> kSectorOrderDOS)) then False
      else if fFileFormat img = kFileFormatNuFX \<and>
         (fOuterFormat img \<noteq> kOuterFormatNone \<or> fPhysical img \<noteq> kPhysicalFormatSectors
          \<or> fOrder img \<noteq> kSectorOrderProDOS) then False
      else if fFileFormat img = kFileFormatDiskCopy42 \<and>
         (fPhysical img \<noteq> kPhysicalFormatSectors \<or>
          ((fHasBlocks img \<and> fNumBlocks img \<noteq> 1600) \<or>
           (fHasSectors img \<and> (fNumTracks img \<noteq> 200 \<or> fNumSectPerTrack img \<noteq> 16))) \<or>
          (fOrder img \<noteq> kSectorOrderProDOS \<and> fOrder img \<noteq> kSectorOrderDOS)) then False
      else if fFileFormat img = kFileFormatSim2eHDV \<and>
         (fPhysical img \<noteq> kPhysicalFormatSectors \<or> fOrder img \<noteq> kSectorOrderProDOS) then False
      else if fFileFormat img = kFileFormatTrackStar
              \<and> fPhysical img \<noteq> kPhysicalFormatNib525_Var then False
      else if fFileFormat img = kFileFormatFDI
              \<and> fPhysical img \<noteq> kPhysicalFormatNib525_Var then False
      else if fFileFormat img = kFileFormatDDD \<and>
         (fPhysical img \<noteq> kPhysicalFormatSectors \<or> fOrder img \<noteq> kSectorOrderDOS \<or>
          (\<not> fHasSectors img \<or> fNumTracks img \<noteq> 35 \<or> fNumSectPerTrack img \<noteq> 16)) then False
      else True)"

definition ValidateCreateFormat :: "DiskImg \<Rightarrow> DIError" where
  "ValidateCreateFormat img =
     (if fHasBlocks img \<and> fNumBlocks img \<ge> 4194304
         \<and> fFileFormat img \<noteq> kFileFormatUnadorned then kDIErrInvalidCreateReq
      else if fOuterFormat img = kOuterFormatUnknown \<or> fFileFormat img = kFileFormatUnknown \<or>
              fPhysical img = kPhysicalFormatUnknown \<or> fOrder img = kSectorOrderUnknown \<or>
              fFormat img = kFormatUnknown then kDIErrInvalidCreateReq
      else if fOuterFormat img \<noteq> kOuterFormatNone \<and> fOuterFormat img \<noteq> kOuterFormatGzip \<and>
              fOuterFormat img \<noteq> kOuterFormatZip then kDIErrInvalidCreateReq
      else if fFileFormat img \<noteq> kFileFormatUnadorned \<and> fFileFormat img \<noteq> kFileFormat2MG \<and>
              fFileFormat img \<noteq> kFileFormatDiskCopy42 \<and>
              fFileFormat img \<noteq> kFileFormatSim2eHDV \<and>
              fFileFormat img \<noteq> kFileFormatTrackStar \<and> fFileFormat img \<noteq> kFileFormatFDI \<and>
              fFileFormat img \<noteq> kFileFormatNuFX \<and> fFileFormat img \<noteq> kFileFormatDDD
           then kDIErrInvalidCreateReq
      else if fFormat img \<noteq> kFormatGenericPhysicalOrd \<and>
              fFormat img \<noteq> kFormatGenericProDOSOrd \<and>
              fFormat img \<noteq> kFormatGenericDOSOrd \<and> fFormat img \<noteq> kFormatGenericCPMOrd
           then kDIErrInvalidCreateReq
      else if fPhysical img \<noteq> kPhysicalFormatSectors \<and> \<not> ValidateCreateFormat_nibble img
           then kDIErrInvalidCreateReq
      else if \<not> ValidateCreateFormat_combination img then kDIErrInvalidCreateReq
      else kDIErrNone)"

text \<open>Two sector images used as concrete inputs: a 140K 5.25" disk and a 400K "wide" volume.\<close>

definition img_140k :: DiskImg where
  "img_140k = DiskImg_new\<lparr> fPhysical := kPhysicalFormatSectors, fHasSectors := True,
     fHasBlocks := True, fNumTracks := 35, fNumSectPerTrack := 16, fNumBlocks := 280,
     fLength := 143360, fReadOnly := False \<rparr>"

definition img_wide :: DiskImg where
  "img_wide = DiskImg_new\<lparr> fPhysical := kPhysicalFormatSectors, fHasSectors := True,
     fHasBlocks := True, fNumTracks := 50, fNumSectPerTrack := 32, fNumBlocks := 800,
     fLength := 409600, fReadOnly := False \<rparr>"

text \<open>
  A chain of parent pointers: \<open>parent_chain h p as\<close> says that following \<open>fpParentImg\<close>
  from the pointer \<open>p\<close> visits exactly the objects \<open>as\<close>, in that order, and ends at nil.
\<close>

fun parent_chain :: "heap \<Rightarrow> addr option \<Rightarrow> addr list \<Rightarrow> bool" where
  "parent_chain h p [] = (p = None)"
| "parent_chain h p (a # as) = (p = Some a \<and> parent_chain h (fpParentImg (h a)) as)"

section \<open>Concrete images\<close>

text \<open>An unadorned wrapper, a nibble codec that is never reached, a test that never matches.\<close>

definition unadorned :: ImageWrapper where
  "unadorned = \<lparr> iwHasFastFlush = True, iwIsDamaged = False,
     iwPrep = (\<lambda>g len ro pv. (kDIErrNone, pv\<lparr>pvLength := len, pvDataGFD := Some g\<rparr>, False)),
     iwFlush = (\<lambda>w d len wl. (kDIErrNone, w, len)) \<rparr>"

definition no_nibble_read :: read_nibble_sector where
  "no_nibble_read img track sector nd = (kDIErrInternal, [])"

definition no_nibble_write :: write_nibble_sector where
  "no_nibble_write h this track sector buf nd = Some (kDIErrInternal, h)"

definition TestFS_fail :: test_fs where
  "TestFS_fail p img order format leniency = (kDIErrFilesystemNotFound, order, format)"

text \<open>A ProDOS-ordered image of four blocks, block \<open>k\<close> filled with the byte \<open>k + 1\<close>.\<close>

definition img_po :: DiskImg where
  "img_po = DiskImg_new\<lparr> fOuterFormat := kOuterFormatNone,
     fFileFormat := kFileFormatUnadorned, fPhysical := kPhysicalFormatSectors,
     fOrder := kSectorOrderProDOS, fFormat := kFormatGenericProDOSOrd,
     fFileSysOrder := kSectorOrderProDOS,
     fpWrapperGFD := Some \<lparr>gfData = replicate 2048 0, gfReadOnly = False\<rparr>,
     fpDataGFD := Some \<lparr>gfData = replicate 512 1 @ replicate 512 2 @ replicate 512 3
                                   @ replicate 512 4, gfReadOnly = False\<rparr>,
     fpImageWrapper := Some unadorned,
     fOuterLength := 2048, fWrappedLength := 2048, fLength := 2048,
     fReadOnly := False, fHasBlocks := True, fNumBlocks := 4 \<rparr>"

text \<open>A sub-image over the first two blocks of \<open>img_po\<close>, as \<open>OpenImage(pParent, 0, 2)\<close> sets it up.\<close>

definition img_sub :: DiskImg where
  "img_sub = DiskImg_new\<lparr> fFileFormat := kFileFormatUnadorned,
     fPhysical := kPhysicalFormatSectors, fOrder := kSectorOrderProDOS,
     fpDataGFD := Some \<lparr>gfData = replicate 512 1 @ replicate 512 2, gfReadOnly = False\<rparr>,
     fpParentImg := Some 0,
     fOuterLength := 1024, fWrappedLength := 1024, fLength := 1024,
     fReadOnly := False, fHasBlocks := True, fNumBlocks := 2 \<rparr>"

text \<open>A heap with \<open>img_po\<close> at address 0 and its sub-image at address 1.\<close>

definition heap0 :: heap where
  "heap0 = (\<lambda>a. DiskImg_new)(0 := img_po, 1 := img_sub)"

definition heap_written :: heap where
  "heap_written = snd (the (CopyBytesIn heap0 1 (Some (replicate 512 0xFF)) 0 512))"

definition heap_flushed :: heap where
  "heap_flushed = snd (the (FlushImage heap_written 0 kFlushAll))"

text \<open>A 13-sector DOS 3.2 image (\<open>.d13\<close>): sectors, no blocks.\<close>

definition img_d13 :: DiskImg where
  "img_d13 = DiskImg_new\<lparr> fOuterFormat := kOuterFormatNone,
     fFileFormat := kFileFormatUnadorned, fPhysical := kPhysicalFormatSectors,
     fOrder := kSectorOrderDOS, fFormat := kFormatDOS32, fFileSysOrder := kSectorOrderDOS,
     fpDataGFD := Some \<lparr>gfData = replicate 116480 0, gfReadOnly = False\<rparr>,
     fLength := 116480, fReadOnly := False, fHasSectors := True,
     fNumTracks := 35, fNumSectPerTrack := 13 \<rparr>"

text \<open>
  The request \<open>CreateImage(path, nil, kOuterFormatNone, kFileFormatUnadorned,
  kPhysicalFormatSectors, &nd13, kSectorOrderProDOS, kFormatGenericProDOSOrd, 280, false)\<close>
  as \<open>CreateImageCommon\<close> hands it to \<open>ValidateCreateFormat\<close>: a sector image of 280
  blocks (hence 35 tracks of 16 sectors) with a 13-sector nibble description supplied.
\<close>

definition nd13 :: NibbleDescr where
  "nd13 = \<lparr> description = ''DOS 3.2 Standard'', numSectors = 13,
     addrProlog = [0xd5, 0xaa, 0xb5], addrEpilog = [0xde, 0xaa, 0xeb],
     addrChecksumSeed = 0, addrVerifyChecksum = True, addrVerifyTrack = True,
     addrEpilogVerifyCount = 2,
     dataProlog = [0xd5, 0xaa, 0xad], dataEpilog = [0xde, 0xaa, 0xeb],
     dataChecksumSeed = 0, dataVerifyChecksum = True, dataEpilogVerifyCount = 2,
     encoding = kNibbleEnc53, special = kNibbleSpecialNone \<rparr>"

definition req_sectors_nd13 :: DiskImg where
  "req_sectors_nd13 = DiskImg_new\<lparr> fOuterFormat := kOuterFormatNone,
     fFileFormat := kFileFormatUnadorned, fPhysical := kPhysicalFormatSectors,
     fpNibbleDescr := Some nd13, fOrder := kSectorOrderProDOS,
     fFormat := kFormatGenericProDOSOrd, fFileSysOrder := kSectorOrderProDOS,
     fReadOnly := False, fDirty := True, fHasSectors := True, fHasBlocks := True,
     fNumTracks := 35, fNumSectPerTrack := 16, fNumBlocks := 280 \<rparr>"

text \<open>A request for a 13-sector nibble image in DOS order.\<close>

definition req_nibble_dos :: DiskImg where
  "req_nibble_dos = DiskImg_new\<lparr> fOuterFormat := kOuterFormatNone,
     fFileFormat := kFileFormatUnadorned, fPhysical := kPhysicalFormatNib525_6656,
     fpNibbleDescr := Some nd13, fOrder := kSectorOrderDOS,
     fFormat := kFormatGenericDOSOrd, fFileSysOrder := kSectorOrderDOS,
     fReadOnly := False, fDirty := True, fHasSectors := True, fHasNibbles := True,
     fNumTracks := 35, fNumSectPerTrack := 13 \<rparr>"

text \<open>A stream of no bytes, and an object whose wrapper stream it is.\<close>

definition img_empty_source :: DiskImg where
  "img_empty_source = DiskImg_new\<lparr> fpWrapperGFD := Some \<lparr>gfData = [], gfReadOnly = True\<rparr> \<rparr>"

definition heap_d13 :: heap where
  "heap_d13 = (\<lambda>a. DiskImg_new)(0 := img_d13)"

text \<open>Wrapper classes none of which recognises anything.\<close>

definition no_outer :: OuterWrapper where
  "no_outer = \<lparr> owHasFastFlush = False, owIsDamaged = False, owGetExtension = None,
     owLoad = (\<lambda>g len ro wl. (kDIErrGeneric, wl, None, False)),
     owSave = (\<lambda>og w len. (kDIErrGeneric, og)) \<rparr>"

definition wrappers_none :: Wrappers where
  "wrappers_none = \<lparr> OuterGzip_Test = (\<lambda>g len. kDIErrGeneric),
     OuterZip_Test = (\<lambda>g len. kDIErrGeneric),
     OuterGzip_new = no_outer, OuterZip_new = no_outer,
     Wrapper_Test = (\<lambda>c g len. kDIErrGeneric),
     Wrapper_new = (\<lambda>c. unadorned) \<rparr>"

text \<open>
  \<open>setBadBlockMap h this m\<close> is the heap \<open>h\<close> with the bad block map of the object at \<open>this\<close>
  replaced by \<open>m\<close>; it serves to say that a function does not look at the map.
\<close>

definition setBadBlockMap :: "heap \<Rightarrow> addr \<Rightarrow> int set option \<Rightarrow> heap" where
  "setBadBlockMap h this m = h(this := (h this)\<lparr>fpBadBlockMap := m\<rparr>)"

text \<open>The image \<open>img_po\<close> with block 2 marked bad.\<close>

definition img_bad :: DiskImg where
  "img_bad = img_po\<lparr>fpBadBlockMap := Some {2}\<rparr>"

text \<open>
  The body of each arm of the chain in \<open>AnalyzeImageFS\<close>, by test, and the chain over a
  list of tests: run them in order, stop at the first success and apply its body, or set
  the format to unknown when all fail.
\<close>

definition probe_body :: "FSProbe \<Rightarrow> DiskImg \<Rightarrow> DiskImg" where
  "probe_body p =
     (if p = DiskFSDOS33 then fixDOS32
      else if p \<in> {DiskFSUNIDOS_Wide, DiskFSUNIDOS, DiskFSOzDOS} then widen32
      else id)"

definition decided ::
  "test_fs \<Rightarrow> FSProbe list \<Rightarrow> DiskImg \<times> FSProbe list \<Rightarrow> DiskImg \<times> FSProbe list" where
  "decided TestFS ps st =
     (case first_success TestFS ps (fst st) (snd st) of
        (None, img, called) \<Rightarrow> (img\<lparr>fFormat := kFormatUnknown\<rparr>, called)
      | (Some p, img, called) \<Rightarrow> (probe_body p img, called))"

text \<open>Filesystem tests that find ProDOS only, and DOS 3.3 only.\<close>

definition TestFS_prodos :: test_fs where
  "TestFS_prodos p img order format leniency =
     (if p = DiskFSProDOS then (kDIErrNone, kSectorOrderProDOS, kFormatProDOS)
      else (kDIErrFilesystemNotFound, order, format))"

definition TestFS_dos33 :: test_fs where
  "TestFS_dos33 p img order format leniency =
     (if p = DiskFSDOS33 then (kDIErrNone, kSectorOrderDOS, kFormatDOS33)
      else (kDIErrFilesystemNotFound, order, format))"

text \<open>
  The wrapper classes \<open>W\<close> with every image wrapper reporting a damaged checksum:
  \<open>Prep\<close> does what it did and \<open>IsDamaged\<close> answers true afterwards.
\<close>

definition report_damage :: "Wrappers \<Rightarrow> Wrappers" where
  "report_damage W =
     W\<lparr>Wrapper_new := (\<lambda>c. (Wrapper_new W c)
           \<lparr>iwPrep := (\<lambda>g len ro pv.
               case iwPrep (Wrapper_new W c) g len ro pv of
                 (dierr, pv', damaged) \<Rightarrow> (dierr, pv', True))\<rparr>)\<rparr>"

text \<open>The note that \<open>AddNote(kNoteWarning, "File checksum didn't match.")\<close> appends.\<close>

definition checksum_warning :: string where
  "checksum_warning = ''- WARNING: File checksum didn't match.'' @ [CHR 0x0A]"

text \<open>What is expected of the result of an analysis that met a damaged checksum.\<close>

definition opened_damaged :: "DIError \<times> DiskImg \<Rightarrow> bool" where
  "opened_damaged r =
     (fst r = kDIErrNone \<longrightarrow>
        fReadOnly (snd r) \<and> (\<exists>old. fNotes (snd r) = Some (old @ checksum_warning)))"

text \<open>
  A DiskCopy 4.2 file of 800K: a header of 84 bytes before the data, recognised by the
  DiskCopy wrapper only; the object before the analysis, the object after the analysis
  of the file and of its geometry (200 tracks of 16 sectors, 1600 blocks) when the wrapper
  reports a damaged checksum, and a heap that holds it.
\<close>

definition dc42_wrapper :: ImageWrapper where
  "dc42_wrapper = \<lparr> iwHasFastFlush = True, iwIsDamaged = False,
     iwPrep = (\<lambda>g len ro pv.
        (kDIErrNone,
         pv\<lparr>pvLength := len - 84, pvPhysical := kPhysicalFormatSectors,
            pvOrder := kSectorOrderProDOS,
            pvDataGFD := Some \<lparr>gfData = drop 84 (gfData g), gfReadOnly = ro\<rparr>\<rparr>,
         False)),
     iwFlush = (\<lambda>w d len wl. (kDIErrNone, w, len + 84)) \<rparr>"

definition wrappers_dc42 :: Wrappers where
  "wrappers_dc42 = \<lparr> OuterGzip_Test = (\<lambda>g len. kDIErrGeneric),
     OuterZip_Test = (\<lambda>g len. kDIErrGeneric),
     OuterGzip_new = no_outer, OuterZip_new = no_outer,
     Wrapper_Test = (\<lambda>c g len. if c = WrapperDiskCopy42 then kDIErrNone else kDIErrGeneric),
     Wrapper_new = (\<lambda>c. dc42_wrapper) \<rparr>"

definition img_dc42_src :: DiskImg where
  "img_dc42_src = DiskImg_new\<lparr> fReadOnly := False,
     fpWrapperGFD := Some \<lparr>gfData = replicate 819284 0, gfReadOnly = False\<rparr> \<rparr>"

definition img_dc42_opened :: DiskImg where
  "img_dc42_opened =
     (snd (the (AnalyzeImageFile (report_damage wrappers_dc42) ''dsk'' [] img_dc42_src)))
       \<lparr> fHasSectors := True, fHasBlocks := True, fNumTracks := 200,
         fNumSectPerTrack := 16, fNumBlocks := 1600, fFormat := kFormatProDOS,
         fFileSysOrder := kSectorOrderProDOS \<rparr>"

definition heap_dc42 :: heap where
  "heap_dc42 = (\<lambda>a. DiskImg_new)(0 := img_dc42_opened)"


section \<open>Properties of the sector order conversion\<close>

lemma stored_sector_eq:
  "toImageSector io (toRawSector fo s) = stored_sector io fo s"
  by (cases io; cases fo)
     (simp_all add: toImageSector_def toRawSector_def stored_sector_def tbl_def
        raw2dos_def dos2raw_def raw2prodos_def prodos2raw_def raw2cpm_def cpm2raw_def)

lemma sector_cases16: "0 \<le> (s::int) \<Longrightarrow> s < 16 \<Longrightarrow>
  s = 0 \<or> s = 1 \<or> s = 2 \<or> s = 3 \<or> s = 4 \<or> s = 5 \<or> s = 6 \<or> s = 7 \<or>
  s = 8 \<or> s = 9 \<or> s = 10 \<or> s = 11 \<or> s = 12 \<or> s = 13 \<or> s = 14 \<or> s = 15"
  by arith

text \<open>Each table pair is a permutation of \<open>0..15\<close> and its inverse.\<close>

lemma stored_sector_range:
  assumes "0 \<le> s" "s < 16"
  shows "0 \<le> stored_sector io fo s \<and> stored_sector io fo s < 16"
  using sector_cases16 [OF assms]
  by (cases io; cases fo) (auto simp: stored_sector_def)

lemma raw_to_image_fs_to_raw:
  assumes "0 \<le> s" "s < 16"
  shows "raw_to_image ord (fs_to_raw ord s) = s"
  using sector_cases16 [OF assms]
  by (cases ord) auto

lemma fs_to_raw_raw_to_image:
  assumes "0 \<le> r" "r < 16"
  shows "fs_to_raw ord (raw_to_image ord r) = r"
  using sector_cases16 [OF assms]
  by (cases ord) auto

text \<open>
  Claim C1. On an image with sectors and without sector pairing, for a track in range:
  with 16 sectors per track the byte offset of sector \<open>s\<close> is
  \<open>track * 16 * 256 + 256 * raw_to_image[imageOrder][fs_to_raw[fsOrder][s]]\<close>; with 32
  sectors per track the same permutation is applied inside each half of 16 sectors, and
  the second half lies \<open>16 * 256\<close> bytes further. The sector written to \<open>*pNewSector\<close> is
  the permuted index.
\<close>

theorem CalcSectorAndOffset_permutes:
  assumes "fHasSectors img" and "\<not> fSectorPairing img"
    and "0 \<le> track" and "track < fNumTracks img"
  shows "(fNumSectPerTrack img = 16 \<and> 0 \<le> sector \<and> sector < 16 \<longrightarrow>
           CalcSectorAndOffset img track sector imageOrder fsOrder =
             Inr (track * 16 * 256 + 256 * stored_sector imageOrder fsOrder sector,
                  stored_sector imageOrder fsOrder sector))
       \<and> (fNumSectPerTrack img = 32 \<and> 0 \<le> sector \<and> sector < 16 \<longrightarrow>
           CalcSectorAndOffset img track sector imageOrder fsOrder =
             Inr (track * 32 * 256 + 256 * stored_sector imageOrder fsOrder sector,
                  stored_sector imageOrder fsOrder sector))
       \<and> (fNumSectPerTrack img = 32 \<and> 16 \<le> sector \<and> sector < 32 \<longrightarrow>
           CalcSectorAndOffset img track sector imageOrder fsOrder =
             Inr (track * 32 * 256 + 16 * 256
                    + 256 * stored_sector imageOrder fsOrder (sector - 16),
                  stored_sector imageOrder fsOrder (sector - 16)))"
  using assms
  by (simp add: CalcSectorAndOffset_def Let_def kSectorSize_def stored_sector_eq)

theorem CalcSectorAndOffset_permutes_witness:
  "fHasSectors img_140k \<and> \<not> fSectorPairing img_140k \<and> (0::int) \<le> 17
   \<and> 17 < fNumTracks img_140k \<and> fNumSectPerTrack img_140k = 16
   \<and> CalcSectorAndOffset img_140k 17 3 kSectorOrderDOS kSectorOrderProDOS
       = Inr (72704, 12)
   \<and> fHasSectors img_wide \<and> \<not> fSectorPairing img_wide \<and> 17 < fNumTracks img_wide
   \<and> fNumSectPerTrack img_wide = 32
   \<and> CalcSectorAndOffset img_wide 17 3 kSectorOrderDOS kSectorOrderProDOS
       = Inr (142336, 12)
   \<and> CalcSectorAndOffset img_wide 17 19 kSectorOrderDOS kSectorOrderProDOS
       = Inr (146432, 12)"
proof -
  have a: "fHasSectors img_140k" "\<not> fSectorPairing img_140k" "17 < fNumTracks img_140k"
    "fNumSectPerTrack img_140k = 16"
    by (simp_all add: img_140k_def DiskImg_new_def)
  have b: "fHasSectors img_wide" "\<not> fSectorPairing img_wide" "17 < fNumTracks img_wide"
    "fNumSectPerTrack img_wide = 32"
    by (simp_all add: img_wide_def DiskImg_new_def)
  have z: "(0::int) \<le> 17" by simp
  show ?thesis
    using a b
      CalcSectorAndOffset_permutes [OF a(1) a(2) z a(3), of 3 kSectorOrderDOS kSectorOrderProDOS]
      CalcSectorAndOffset_permutes [OF b(1) b(2) z b(3), of 3 kSectorOrderDOS kSectorOrderProDOS]
      CalcSectorAndOffset_permutes [OF b(1) b(2) z b(3), of 19 kSectorOrderDOS kSectorOrderProDOS]
    by (simp add: stored_sector_def)
qed

section \<open>Properties of block reads\<close>

lemma CheckForBadBlocks_loop_iff:
  "CheckForBadBlocks_loop m i hi = (\<exists>j. i \<le> j \<and> j < hi \<and> j \<in> m)"
proof (induction m i hi rule: CheckForBadBlocks_loop.induct)
  case (1 m i hi)
  show ?case
  proof (cases "i < hi")
    case False
    then show ?thesis by (subst CheckForBadBlocks_loop.simps) auto
  next
    case True
    show ?thesis
    proof (cases "i \<in> m")
      case True
      with \<open>i < hi\<close> show ?thesis by (subst CheckForBadBlocks_loop.simps) auto
    next
      case False
      have "CheckForBadBlocks_loop m i hi = CheckForBadBlocks_loop m (i + 1) hi"
        using \<open>i < hi\<close> False by (subst CheckForBadBlocks_loop.simps) simp
      also have "\<dots> = (\<exists>j. i + 1 \<le> j \<and> j < hi \<and> j \<in> m)"
        using "1.IH" [OF \<open>i < hi\<close> False] .
      also have "\<dots> = (\<exists>j. i \<le> j \<and> j < hi \<and> j \<in> m)"
      proof
        assume "\<exists>j. i + 1 \<le> j \<and> j < hi \<and> j \<in> m"
        then obtain j where j: "i + 1 \<le> j" "j < hi" "j \<in> m" by blast
        from j(1) have "i \<le> j" by simp
        with j show "\<exists>j. i \<le> j \<and> j < hi \<and> j \<in> m" by blast
      next
        assume "\<exists>j. i \<le> j \<and> j < hi \<and> j \<in> m"
        then obtain j where j: "i \<le> j" "j < hi" "j \<in> m" by blast
        with False have "j \<noteq> i" by auto
        with j have "i + 1 \<le> j" by simp
        with j show "\<exists>j. i + 1 \<le> j \<and> j < hi \<and> j \<in> m" by blast
      qed
      finally show ?thesis .
    qed
  qed
qed

lemma CheckForBadBlocks_iff:
  "CheckForBadBlocks img s n =
     (\<exists>m j. fpBadBlockMap img = Some m \<and> s \<le> j \<and> j < s + n \<and> j \<in> m)"
  by (cases "fpBadBlockMap img") (simp_all add: CheckForBadBlocks_def CheckForBadBlocks_loop_iff)

lemma CopyBytesOut_ok:
  "CopyBytesOut img off sz = Some (kDIErrNone, bs) \<longleftrightarrow>
     (\<exists>g. fpDataGFD img = Some g \<and> 0 \<le> off \<and> 0 \<le> sz
          \<and> off + sz \<le> int (length (gfData g))
          \<and> bs = take (nat sz) (drop (nat off) (gfData g)))"
  by (cases "fpDataGFD img")
     (auto simp: CopyBytesOut_def GFD_Seek_def GFD_Read_def Let_def)

lemma blk_arith1: "(s + n) * 512 \<le> (L::int) \<Longrightarrow> i < n \<Longrightarrow> (s + i) * 512 + 512 \<le> L"
  by (simp add: distrib_right)

lemma blk_arith2: "(s + n) * 512 \<le> (L::int) \<Longrightarrow> s * 512 + n * 512 \<le> L"
  by (simp add: distrib_right)

lemma blk_arith3: "0 \<le> (a::int) \<Longrightarrow> a + 512 \<le> int k \<Longrightarrow> nat a + 512 \<le> k"
  by linarith

lemma blk_arith4: "0 \<le> (s::int) \<Longrightarrow> nat (s * 512) + i * 512 = nat ((s + int i) * 512)"
  by (simp add: distrib_right nat_add_distrib nat_mult_distrib)

lemma blk_arith5: "(s + (n - 1)) * 512 + 512 \<le> (L::int) \<Longrightarrow> (s + n) * 512 \<le> L"
  by (simp add: distrib_right left_diff_distrib)

lemma blk_arith6: "0 < (n::int) \<Longrightarrow> nat (n * 512) = nat n * 512"
  by (simp add: nat_mult_distrib)

lemma CopyBytesOut_Some:
  assumes "fpDataGFD img = Some g" and "0 \<le> off" and "0 \<le> sz"
    and "off + sz \<le> int (length (gfData g))"
  shows "CopyBytesOut img off sz
           = Some (kDIErrNone, take (nat sz) (drop (nat off) (gfData g)))"
  using assms by (simp add: CopyBytesOut_def GFD_Seek_def GFD_Read_def Let_def)

lemma ReadBlock_linear:
  assumes "IsSectorFormat (fPhysical img)" and "fHasBlocks img"
    and "fOrder img = fFileSysOrder img"
    and "0 \<le> b" and "b < fNumBlocks img" and "\<not> CheckForBadBlocks img b 1"
  shows "ReadBlock R img b OutBuf = CopyBytesOut img (b * 512) 512"
  using assms
  by (simp add: ReadBlock_def ReadBlockSwapped_def IsLinearBlocks_def kBlockSize_def)

lemma take_blocks:
  "take (k * 512) (drop off xs) =
     concat (map (\<lambda>i. take 512 (drop (off + i * 512) xs)) [0..<k])"
proof (induction k)
  case 0
  show ?case by simp
next
  case (Suc k)
  have "take (Suc k * 512) (drop off xs) = take (k * 512 + 512) (drop off xs)"
    by (simp add: add.commute)
  also have "\<dots> = take (k * 512) (drop off xs) @ take 512 (drop (k * 512) (drop off xs))"
    by (rule take_add)
  also have "drop (k * 512) (drop off xs) = drop (off + k * 512) xs"
    by (simp add: add.commute)
  finally have "take (Suc k * 512) (drop off xs)
       = take (k * 512) (drop off xs) @ take 512 (drop (off + k * 512) xs)" .
  then show ?case using Suc.IH by simp
qed

lemma ReadBlocks_loop_all:
  assumes "\<forall>i < k. ReadBlock R img (s + int i) buf = Some (kDIErrNone, B (s + int i))"
  shows "ReadBlocks_loop R img s (int k) buf acc
           = Some (kDIErrNone, acc @ concat (map (\<lambda>i. B (s + int i)) [0..<k]))"
  using assms
proof (induction k arbitrary: s acc)
  case 0
  show ?case by (subst ReadBlocks_loop.simps) simp
next
  case (Suc k)
  from Suc.prems have first: "ReadBlock R img s buf = Some (kDIErrNone, B s)"
    using Suc.prems [rule_format, of 0] by simp
  have rest: "\<forall>i < k. ReadBlock R img (s + 1 + int i) buf
                = Some (kDIErrNone, B (s + 1 + int i))"
  proof (intro allI impI)
    fix i assume "i < k"
    then have "Suc i < Suc k" by simp
    with Suc.prems have h: "ReadBlock R img (s + int (Suc i)) buf
        = Some (kDIErrNone, B (s + int (Suc i)))" by blast
    have eq: "s + int (Suc i) = s + 1 + int i" by simp
    show "ReadBlock R img (s + 1 + int i) buf = Some (kDIErrNone, B (s + 1 + int i))"
      using h unfolding eq .
  qed
  have "ReadBlocks_loop R img s (int (Suc k)) buf acc
          = ReadBlocks_loop R img (s + 1) (int k) buf (acc @ B s)"
    using first by (subst ReadBlocks_loop.simps) simp
  also have "\<dots> = Some (kDIErrNone,
                 (acc @ B s) @ concat (map (\<lambda>i. B (s + 1 + int i)) [0..<k]))"
    by (rule Suc.IH [OF rest])
  also have "(acc @ B s) @ concat (map (\<lambda>i. B (s + 1 + int i)) [0..<k])
               = acc @ concat (map (\<lambda>i. B (s + int i)) [0..<Suc k])"
  proof -
    have "\<And>i. s + int (Suc i) = s + 1 + int i" by simp
    then have "map (\<lambda>i. B (s + int i)) [0..<Suc k]
                 = B s # map (\<lambda>i. B (s + 1 + int i)) [0..<k]"
      by (simp only: map_upt_Suc) simp
    then show ?thesis by simp
  qed
  finally show ?case .
qed

text \<open>
  Claim C2. On an image whose physical format is sectors, that has blocks and whose image
  order is its filesystem order, \<open>ReadBlocks(s, n, buf)\<close> with \<open>n > 0\<close> and a buffer
  succeeds exactly when each of the \<open>n\<close> calls \<open>ReadBlock(s + i)\<close> succeeds; it then
  delivers the concatenation of those \<open>n\<close> blocks of 512 bytes, which is also what the
  block-at-a-time loop of the other branch delivers.
\<close>

theorem ReadBlocks_linear:
  assumes lin: "IsSectorFormat (fPhysical img)" "fHasBlocks img"
      "fOrder img = fFileSysOrder img"
    and n: "0 < n"
  shows "((\<exists>bs. ReadBlocks R img s n OutBuf = Some (kDIErrNone, bs)) \<longleftrightarrow>
          (\<forall>i. 0 \<le> i \<and> i < n \<longrightarrow>
               (\<exists>b. ReadBlock R img (s + i) OutBuf = Some (kDIErrNone, b))))
       \<and> (\<forall>bs. ReadBlocks R img s n OutBuf = Some (kDIErrNone, bs) \<longrightarrow>
             bs = concat (map (\<lambda>i. snd (the (ReadBlock R img (s + int i) OutBuf)))
                            [0..<nat n])
           \<and> (\<forall>i < nat n. length (snd (the (ReadBlock R img (s + int i) OutBuf))) = 512)
           \<and> ReadBlocks_loop R img s n OutBuf [] = Some (kDIErrNone, bs))"
proof -
  let ?N = "fNumBlocks img"
  have blk_bad_range: "\<And>b. b < 0 \<or> ?N \<le> b \<Longrightarrow>
      ReadBlock R img b OutBuf = Some (kDIErrInvalidBlock, [])"
    using lin by (auto simp: ReadBlock_def ReadBlockSwapped_def)
  have blk_bad: "\<And>b. 0 \<le> b \<Longrightarrow> b < ?N \<Longrightarrow> CheckForBadBlocks img b 1 \<Longrightarrow>
      ReadBlock R img b OutBuf = Some (kDIErrReadFailed, [])"
    using lin by (auto simp: ReadBlock_def ReadBlockSwapped_def)
  show ?thesis
  proof (cases "s < 0 \<or> n + s > ?N")
    case True
    then have r: "ReadBlocks R img s n OutBuf = Some (kDIErrInvalidArg, [])"
      by (simp add: ReadBlocks_def)
    have "\<exists>i. 0 \<le> i \<and> i < n \<and> ReadBlock R img (s + i) OutBuf = Some (kDIErrInvalidBlock, [])"
    proof (cases "s < 0")
      case True
      then have "ReadBlock R img (s + 0) OutBuf = Some (kDIErrInvalidBlock, [])"
        using blk_bad_range [of s] by simp
      with n show ?thesis by (intro exI [of _ 0]) simp
    next
      case False
      with True have "?N \<le> s + (n - 1)" by simp
      then have "ReadBlock R img (s + (n - 1)) OutBuf = Some (kDIErrInvalidBlock, [])"
        using blk_bad_range by blast
      with n show ?thesis by (intro exI [of _ "n - 1"]) simp
    qed
    then show ?thesis using r by auto
  next
    case False
    then have rng: "0 \<le> s" "n + s \<le> ?N" by simp_all
    show ?thesis
    proof (cases "CheckForBadBlocks img s n")
      case True
      then have r: "ReadBlocks R img s n OutBuf = Some (kDIErrReadFailed, [])"
        using False by (simp add: ReadBlocks_def)
      from True obtain m j where j: "fpBadBlockMap img = Some m" "s \<le> j" "j < s + n" "j \<in> m"
        by (auto simp: CheckForBadBlocks_iff)
      then have "CheckForBadBlocks img j 1" by (auto simp: CheckForBadBlocks_iff)
      then have "ReadBlock R img j OutBuf = Some (kDIErrReadFailed, [])"
        using blk_bad [of j] j rng by simp
      then have "ReadBlock R img (s + (j - s)) OutBuf = Some (kDIErrReadFailed, [])" by simp
      moreover have "0 \<le> j - s" "j - s < n" using j by simp_all
      ultimately have "\<exists>i. 0 \<le> i \<and> i < n \<and>
          ReadBlock R img (s + i) OutBuf = Some (kDIErrReadFailed, [])" by blast
      then show ?thesis using r by auto
    next
      case nobad: False
      have fast: "ReadBlocks R img s n OutBuf = CopyBytesOut img (s * 512) (n * 512)"
        using False nobad lin
        by (simp add: ReadBlocks_def IsLinearBlocks_def kBlockSize_def)
      have each: "\<And>i. 0 \<le> i \<Longrightarrow> i < n \<Longrightarrow>
          ReadBlock R img (s + i) OutBuf = CopyBytesOut img ((s + i) * 512) 512"
      proof -
        fix i :: int assume i: "0 \<le> i" "i < n"
        have "\<not> CheckForBadBlocks img (s + i) 1"
          using nobad i by (auto simp: CheckForBadBlocks_iff)
        then show "ReadBlock R img (s + i) OutBuf = CopyBytesOut img ((s + i) * 512) 512"
          using ReadBlock_linear [OF lin, of "s + i" R] rng i by simp
      qed
      show ?thesis
      proof (cases "\<exists>g. fpDataGFD img = Some g \<and> (s + n) * 512 \<le> int (length (gfData g))")
        case False
        have a: "\<not> (\<exists>bs. ReadBlocks R img s n OutBuf = Some (kDIErrNone, bs))"
        proof
          assume "\<exists>bs. ReadBlocks R img s n OutBuf = Some (kDIErrNone, bs)"
          then obtain bs where "CopyBytesOut img (s * 512) (n * 512) = Some (kDIErrNone, bs)"
            by (auto simp: fast)
          then obtain g where g: "fpDataGFD img = Some g"
              "s * 512 + n * 512 \<le> int (length (gfData g))"
            unfolding CopyBytesOut_ok by blast
          from g(2) have "(s + n) * 512 \<le> int (length (gfData g))"
            by (simp add: distrib_right)
          with g(1) have "\<exists>g. fpDataGFD img = Some g \<and> (s + n) * 512 \<le> int (length (gfData g))"
            by blast
          with False show False by blast
        qed
        have "\<not> (\<exists>b. ReadBlock R img (s + (n - 1)) OutBuf = Some (kDIErrNone, b))"
        proof
          assume "\<exists>b. ReadBlock R img (s + (n - 1)) OutBuf = Some (kDIErrNone, b)"
          then obtain b where
            "CopyBytesOut img ((s + (n - 1)) * 512) 512 = Some (kDIErrNone, b)"
            using each [of "n - 1"] n by auto
          then obtain g where g: "fpDataGFD img = Some g"
              "(s + (n - 1)) * 512 + 512 \<le> int (length (gfData g))"
            unfolding CopyBytesOut_ok by blast
          from g(2) have "(s + n) * 512 \<le> int (length (gfData g))" by (rule blk_arith5)
          with g(1) have "\<exists>g. fpDataGFD img = Some g \<and> (s + n) * 512 \<le> int (length (gfData g))"
            by blast
          with False show False by blast
        qed
        moreover have "0 \<le> n - 1" "n - 1 < n" using n by simp_all
        ultimately have b: "\<not> (\<forall>i. 0 \<le> i \<and> i < n \<longrightarrow>
               (\<exists>b. ReadBlock R img (s + i) OutBuf = Some (kDIErrNone, b)))" by blast
        show ?thesis using a b by blast
      next
        case True
        then obtain g where g: "fpDataGFD img = Some g"
            "(s + n) * 512 \<le> int (length (gfData g))" by blast
        let ?d = "gfData g"
        let ?B = "\<lambda>b. take 512 (drop (nat (b * 512)) ?d)"
        have blk: "\<And>i. 0 \<le> i \<Longrightarrow> i < n \<Longrightarrow>
            ReadBlock R img (s + i) OutBuf = Some (kDIErrNone, ?B (s + i))"
        proof -
          fix i :: int assume i: "0 \<le> i" "i < n"
          have a1: "0 \<le> (s + i) * 512" using rng(1) i(1) by simp
          have a2: "(s + i) * 512 + 512 \<le> int (length ?d)"
            by (rule blk_arith1 [OF g(2) i(2)])
          have "CopyBytesOut img ((s + i) * 512) 512
                  = Some (kDIErrNone, take (nat 512) (drop (nat ((s + i) * 512)) ?d))"
            by (rule CopyBytesOut_Some [OF g(1) a1 _ a2]) simp
          then show "ReadBlock R img (s + i) OutBuf = Some (kDIErrNone, ?B (s + i))"
            using each [OF i] by simp
        qed
        have len: "\<And>i. 0 \<le> i \<Longrightarrow> i < n \<Longrightarrow> length (?B (s + i)) = 512"
        proof -
          fix i :: int assume i: "0 \<le> i" "i < n"
          have a1: "0 \<le> (s + i) * 512" using rng(1) i(1) by simp
          have a2: "(s + i) * 512 + 512 \<le> int (length ?d)"
            by (rule blk_arith1 [OF g(2) i(2)])
          have "nat ((s + i) * 512) + 512 \<le> length ?d" by (rule blk_arith3 [OF a1 a2])
          then show "length (?B (s + i)) = 512" by simp
        qed
        have b1: "0 \<le> s * 512" using rng(1) by simp
        have b2: "0 \<le> n * 512" using n by simp
        have b3: "s * 512 + n * 512 \<le> int (length ?d)" by (rule blk_arith2 [OF g(2)])
        have whole: "ReadBlocks R img s n OutBuf
            = Some (kDIErrNone, take (nat (n * 512)) (drop (nat (s * 512)) ?d))"
          unfolding fast by (rule CopyBytesOut_Some [OF g(1) b1 b2 b3])
        have "take (nat (n * 512)) (drop (nat (s * 512)) ?d)
              = take (nat n * 512) (drop (nat (s * 512)) ?d)"
          by (simp only: blk_arith6 [OF n])
        also have "\<dots> = concat (map (\<lambda>i. take 512 (drop (nat (s * 512) + i * 512) ?d))
                                 [0..<nat n])"
          by (rule take_blocks)
        also have "\<dots> = concat (map (\<lambda>i. ?B (s + int i)) [0..<nat n])"
        proof -
          show ?thesis by (simp only: blk_arith4 [OF rng(1)])
        qed
        finally have cat: "take (nat (n * 512)) (drop (nat (s * 512)) ?d)
              = concat (map (\<lambda>i. ?B (s + int i)) [0..<nat n])" .
        have blk_nat: "\<forall>i < nat n. ReadBlock R img (s + int i) OutBuf
              = Some (kDIErrNone, ?B (s + int i))"
          using blk by simp
        have loop: "ReadBlocks_loop R img s (int (nat n)) OutBuf []
             = Some (kDIErrNone, [] @ concat (map (\<lambda>i. ?B (s + int i)) [0..<nat n]))"
          by (rule ReadBlocks_loop_all [OF blk_nat])
        have map_eq: "map (\<lambda>i. snd (the (ReadBlock R img (s + int i) OutBuf))) [0..<nat n]
              = map (\<lambda>i. ?B (s + int i)) [0..<nat n]"
          using blk_nat by (intro map_cong) simp_all
        have c1: "(\<exists>bs. ReadBlocks R img s n OutBuf = Some (kDIErrNone, bs))"
          using whole by simp
        have c2: "\<forall>i. 0 \<le> i \<and> i < n \<longrightarrow>
               (\<exists>b. ReadBlock R img (s + i) OutBuf = Some (kDIErrNone, b))"
          using blk by simp
        have c3: "\<forall>i < nat n. length (snd (the (ReadBlock R img (s + int i) OutBuf))) = 512"
          using blk_nat len by simp
        have nn: "int (nat n) = n" using n by simp
        have c4: "ReadBlocks R img s n OutBuf = Some (kDIErrNone,
                    concat (map (\<lambda>i. snd (the (ReadBlock R img (s + int i) OutBuf)))
                              [0..<nat n]))"
          unfolding whole cat map_eq ..
        have c5: "ReadBlocks_loop R img s n OutBuf [] = Some (kDIErrNone,
                    concat (map (\<lambda>i. snd (the (ReadBlock R img (s + int i) OutBuf)))
                              [0..<nat n]))"
          using loop unfolding nn map_eq by simp
        show ?thesis
          using c1 c2 c3 by (simp add: c4 c5)
      qed
    qed
  qed
qed

lemmas example_defs =
  heap0_def img_po_def img_sub_def DiskImg_new_def unadorned_def kVolumeNumNotSet_def

theorem ReadBlocks_linear_witness:
  "IsSectorFormat (fPhysical img_po) \<and> fHasBlocks img_po
   \<and> fOrder img_po = fFileSysOrder img_po \<and> (0::int) < 2
   \<and> ReadBlocks no_nibble_read img_po 1 2 OutBuf
       = Some (kDIErrNone, replicate 512 2 @ replicate 512 3)
   \<and> ReadBlock no_nibble_read img_po 1 OutBuf = Some (kDIErrNone, replicate 512 2)
   \<and> ReadBlock no_nibble_read img_po 2 OutBuf = Some (kDIErrNone, replicate 512 3)
   \<and> ReadBlocks_loop no_nibble_read img_po 1 2 OutBuf []
       = Some (kDIErrNone, replicate 512 2 @ replicate 512 3)"
proof -
  have h: "IsSectorFormat (fPhysical img_po)" "fHasBlocks img_po"
      "fOrder img_po = fFileSysOrder img_po"
    by (simp_all add: img_po_def DiskImg_new_def IsSectorFormat_def)
  have n: "(0::int) < 2" by simp
  have b1: "ReadBlock no_nibble_read img_po 1 OutBuf = Some (kDIErrNone, replicate 512 2)"
    by (simp add: ReadBlock_def ReadBlockSwapped_def CheckForBadBlocks_def
          IsLinearBlocks_def IsSectorFormat_def CopyBytesOut_def GFD_Seek_def GFD_Read_def
          kBlockSize_def img_po_def DiskImg_new_def)
  have b2: "ReadBlock no_nibble_read img_po 2 OutBuf = Some (kDIErrNone, replicate 512 3)"
    by (simp add: ReadBlock_def ReadBlockSwapped_def CheckForBadBlocks_def
          IsLinearBlocks_def IsSectorFormat_def CopyBytesOut_def GFD_Seek_def GFD_Read_def
          kBlockSize_def img_po_def DiskImg_new_def)
  have r: "ReadBlocks no_nibble_read img_po 1 2 OutBuf
             = Some (kDIErrNone, replicate 512 2 @ replicate 512 3)"
    by (simp add: ReadBlocks_def CheckForBadBlocks_def
          IsLinearBlocks_def IsSectorFormat_def CopyBytesOut_def GFD_Seek_def GFD_Read_def
          kBlockSize_def img_po_def DiskImg_new_def)
  from ReadBlocks_linear [OF h n, of no_nibble_read 1] r
  have "ReadBlocks_loop no_nibble_read img_po 1 2 OutBuf []
          = Some (kDIErrNone, replicate 512 2 @ replicate 512 3)"
    by blast
  with h n b1 b2 r show ?thesis by simp
qed

section \<open>Properties of writes and of the dirty flag\<close>

lemma parent_chain_dirty:
  "parent_chain (h(b := (h b)\<lparr>fDirty := True\<rparr>)) p as = parent_chain h p as"
  by (induction as arbitrary: p) auto

lemma parent_chain_data:
  "parent_chain (h(b := (h b)\<lparr>fpDataGFD := g\<rparr>)) p as = parent_chain h p as"
  by (induction as arbitrary: p) auto

text \<open>On a chain that ends, the loop returns, with the flag set on the chain and nowhere else.\<close>

lemma SetDirtyUp_chain:
  "parent_chain h p as \<Longrightarrow>
   SetDirtyUp h p = Some (\<lambda>a. if a \<in> set as then (h a)\<lparr>fDirty := True\<rparr> else h a)"
proof (induction as arbitrary: h p)
  case Nil
  then show ?case by (simp add: SetDirtyUp.simps)
next
  case (Cons a as)
  let ?h1 = "h(a := (h a)\<lparr>fDirty := True\<rparr>)"
  from Cons.prems have p: "p = Some a" and c: "parent_chain h (fpParentImg (h a)) as"
    by simp_all
  from c have c1: "parent_chain ?h1 (fpParentImg (h a)) as"
    by (simp only: parent_chain_dirty)
  have "SetDirtyUp h p = SetDirtyUp ?h1 (fpParentImg (h a))"
    using p by (subst SetDirtyUp.simps) simp
  also have "\<dots> = Some (\<lambda>b. if b \<in> set as then (?h1 b)\<lparr>fDirty := True\<rparr> else ?h1 b)"
    by (rule Cons.IH [OF c1])
  also have "(\<lambda>b. if b \<in> set as then (?h1 b)\<lparr>fDirty := True\<rparr> else ?h1 b)
             = (\<lambda>b. if b \<in> set (a # as) then (h b)\<lparr>fDirty := True\<rparr> else h b)"
    by (rule ext) simp
  finally show ?case .
qed

lemma CopyBytesIn_dirty:
  assumes "parent_chain h (Some this) as"
    and "CopyBytesIn h this buf offset size' = Some (kDIErrNone, h1)"
  shows "\<forall>a \<in> set as. fDirty (h1 a)"
proof -
  have upd: "\<And>g'. parent_chain (h(this := (h this)\<lparr>fpDataGFD := g'\<rparr>)) (Some this) as"
    using assms(1) by (simp only: parent_chain_data)
  show ?thesis
    using assms(2)
    by (auto simp: CopyBytesIn_def Let_def SetDirtyUp_chain [OF upd]
             split: if_splits option.splits prod.splits)
qed

lemma CopyBytesIn_returns:
  assumes "parent_chain h (Some this) as" and "fpDataGFD (h this) \<noteq> None" and "buf \<noteq> None"
  shows "CopyBytesIn h this buf offset size' \<noteq> None"
proof -
  have upd: "\<And>g'. parent_chain (h(this := (h this)\<lparr>fpDataGFD := g'\<rparr>)) (Some this) as"
    using assms(1) by (simp only: parent_chain_data)
  show ?thesis
    using assms(2,3)
    by (auto simp: CopyBytesIn_def Let_def SetDirtyUp_chain [OF upd]
             split: if_splits option.splits prod.splits)
qed

lemma FlushImage_others:
  assumes "FlushImage h root mode = Some (e, h2)" and "a \<noteq> root"
  shows "h2 a = h a"
  using assms
  by (auto simp: FlushImage_def Let_def split: if_splits option.splits prod.splits)

lemma FlushImage_skipped:
  assumes "fDirty (h root)" and "fpDataGFD (h root) \<noteq> None" and "mode = kFlushFastOnly"
    and "(fpImageWrapper (h root) \<noteq> None \<and> \<not> iwHasFastFlush (the (fpImageWrapper (h root))))
         \<or> (fpOuterWrapper (h root) \<noteq> None \<and> \<not> owHasFastFlush (the (fpOuterWrapper (h root))))"
  shows "FlushImage h root mode = Some (kDIErrNone, h)"
  using assms by (auto simp: FlushImage_def Let_def)

lemma FlushImage_clears:
  assumes "FlushImage h root mode = Some (kDIErrNone, h2)"
    and "\<not> (fDirty (h root) \<and> fpDataGFD (h root) \<noteq> None \<and> mode = kFlushFastOnly
            \<and> ((fpImageWrapper (h root) \<noteq> None
                   \<and> \<not> iwHasFastFlush (the (fpImageWrapper (h root))))
               \<or> (fpOuterWrapper (h root) \<noteq> None
                   \<and> \<not> owHasFastFlush (the (fpOuterWrapper (h root))))))"
  shows "\<not> fDirty (h2 root)"
  using assms
  by (auto simp: FlushImage_def Let_def split: if_splits option.splits prod.splits)

lemma FlushImage_dirty_iff:
  assumes "FlushImage h root mode = Some (kDIErrNone, h2)"
  shows "fDirty (h2 root) \<longleftrightarrow>
           fDirty (h root) \<and> fpDataGFD (h root) \<noteq> None \<and> mode = kFlushFastOnly
           \<and> ((fpImageWrapper (h root) \<noteq> None
                  \<and> \<not> iwHasFastFlush (the (fpImageWrapper (h root))))
              \<or> (fpOuterWrapper (h root) \<noteq> None
                  \<and> \<not> owHasFastFlush (the (fpOuterWrapper (h root)))))"
proof
  assume d: "fDirty (h2 root)"
  show "fDirty (h root) \<and> fpDataGFD (h root) \<noteq> None \<and> mode = kFlushFastOnly
           \<and> ((fpImageWrapper (h root) \<noteq> None
                  \<and> \<not> iwHasFastFlush (the (fpImageWrapper (h root))))
              \<or> (fpOuterWrapper (h root) \<noteq> None
                  \<and> \<not> owHasFastFlush (the (fpOuterWrapper (h root)))))"
    using FlushImage_clears [OF assms] d by blast
next
  assume s: "fDirty (h root) \<and> fpDataGFD (h root) \<noteq> None \<and> mode = kFlushFastOnly
           \<and> ((fpImageWrapper (h root) \<noteq> None
                  \<and> \<not> iwHasFastFlush (the (fpImageWrapper (h root))))
              \<or> (fpOuterWrapper (h root) \<noteq> None
                  \<and> \<not> owHasFastFlush (the (fpOuterWrapper (h root)))))"
  then have "FlushImage h root mode = Some (kDIErrNone, h)"
    using FlushImage_skipped by blast
  with assms have "h2 = h" by simp
  with s show "fDirty (h2 root)" by simp
qed

lemma heap_written_eval:
  "CopyBytesIn heap0 1 (Some (replicate 512 0xFF)) 0 512 = Some (kDIErrNone, heap_written)"
  by (simp add: heap_written_def CopyBytesIn_def Let_def GFD_Seek_def GFD_Write_def
        example_defs SetDirtyUp.simps)

lemma heap_written_flags:
  "fDirty (heap_written 1) \<and> fDirty (heap_written 0)
   \<and> fpParentImg (heap_written 1) = Some 0 \<and> fpParentImg (heap_written 0) = None"
  by (simp add: heap_written_def CopyBytesIn_def Let_def GFD_Seek_def GFD_Write_def
        example_defs SetDirtyUp.simps)

lemma heap_flushed_eval:
  "FlushImage heap_written 0 kFlushAll = Some (kDIErrNone, heap_flushed)"
  by (simp add: heap_flushed_def heap_written_def FlushImage_def CopyBytesIn_def Let_def
        GFD_Seek_def GFD_Write_def example_defs SetDirtyUp.simps)

lemma heap_flushed_flags:
  "\<not> fDirty (heap_flushed 0) \<and> fpParentImg (heap_flushed 1) = Some 0
   \<and> fpParentImg (heap_flushed 0) = None \<and> fDirty (heap_flushed 1)"
  by (simp add: heap_flushed_def heap_written_def FlushImage_def CopyBytesIn_def Let_def
        GFD_Seek_def GFD_Write_def example_defs SetDirtyUp.simps)

lemma heap_flushed_fast_eval:
  "FlushImage heap_written 0 kFlushFastOnly = Some (kDIErrNone, heap_flushed)"
  by (simp add: heap_flushed_def heap_written_def FlushImage_def CopyBytesIn_def Let_def
        GFD_Seek_def GFD_Write_def example_defs SetDirtyUp.simps)

lemma heap_written_wrappers:
  "fDirty (heap_written 0) \<and> fpDataGFD (heap_written 0) \<noteq> None
   \<and> fpImageWrapper (heap_written 0) \<noteq> None
   \<and> iwHasFastFlush (the (fpImageWrapper (heap_written 0)))
   \<and> fpOuterWrapper (heap_written 0) = None"
  by (simp add: heap_written_def CopyBytesIn_def Let_def GFD_Seek_def GFD_Write_def
        example_defs SetDirtyUp.simps)

text \<open>
  Claim C3 as stated fails: the sub-image at address 1 of the image at address 0 is written
  through \<open>CopyBytesIn\<close>, which marks both dirty; the flush of the root then succeeds and
  clears the root's flag, and the sub-image still reports \<open>dirty\<close>.
\<close>

theorem flush_root_leaves_child_dirty:
  "CopyBytesIn heap0 1 (Some (replicate 512 0xFF)) 0 512 = Some (kDIErrNone, heap_written)
   \<and> FlushImage heap_written 0 kFlushAll = Some (kDIErrNone, heap_flushed)
   \<and> fpParentImg (heap_flushed 1) = Some 0 \<and> fpParentImg (heap_flushed 0) = None
   \<and> \<not> fDirty (heap_flushed 0) \<and> fDirty (heap_flushed 1)"
  using heap_written_eval heap_flushed_eval heap_flushed_flags by simp

text \<open>
  Claim C3, amended. A write through \<open>CopyBytesIn\<close> on an object whose parent chain ends
  returns (given a data stream and a buffer), and when it succeeds the object and every
  object up its parent chain report \<open>dirty\<close>. A flush that returns success leaves every
  other object, so also the dirty flag of each sub-image, as it was; the flushed object
  itself reports \<open>dirty\<close> afterwards exactly when the flush was skipped, that is when the
  object was dirty, has a data stream, the mode is \<open>kFlushFastOnly\<close> and its image wrapper
  or its outer wrapper has no fast flush. So every flush that is not skipped, a fast-only
  flush over fast wrappers included, leaves the flushed object clean.
\<close>

theorem dirty_propagation:
  "(parent_chain h (Some this) as \<and> fpDataGFD (h this) \<noteq> None \<and> buf \<noteq> None
      \<longrightarrow> CopyBytesIn h this buf offset size' \<noteq> None)
   \<and> (parent_chain h (Some this) as
        \<and> CopyBytesIn h this buf offset size' = Some (kDIErrNone, hw)
      \<longrightarrow> (\<forall>a \<in> set as. fDirty (hw a)))
   \<and> (FlushImage g root mode = Some (kDIErrNone, hf)
      \<longrightarrow> (\<forall>a. a \<noteq> root \<longrightarrow> hf a = g a)
         \<and> (fDirty (hf root) \<longleftrightarrow>
               fDirty (g root) \<and> fpDataGFD (g root) \<noteq> None \<and> mode = kFlushFastOnly
               \<and> ((fpImageWrapper (g root) \<noteq> None
                      \<and> \<not> iwHasFastFlush (the (fpImageWrapper (g root))))
                  \<or> (fpOuterWrapper (g root) \<noteq> None
                      \<and> \<not> owHasFastFlush (the (fpOuterWrapper (g root)))))))"
proof (intro conjI impI allI)
  assume "parent_chain h (Some this) as \<and> fpDataGFD (h this) \<noteq> None \<and> buf \<noteq> None"
  then show "CopyBytesIn h this buf offset size' \<noteq> None"
    using CopyBytesIn_returns by blast
next
  assume "parent_chain h (Some this) as
        \<and> CopyBytesIn h this buf offset size' = Some (kDIErrNone, hw)"
  then show "\<forall>a \<in> set as. fDirty (hw a)"
    using CopyBytesIn_dirty by blast
next
  fix a
  assume "FlushImage g root mode = Some (kDIErrNone, hf)" and "a \<noteq> root"
  then show "hf a = g a" by (rule FlushImage_others)
next
  assume "FlushImage g root mode = Some (kDIErrNone, hf)"
  then show "fDirty (hf root) \<longleftrightarrow>
               fDirty (g root) \<and> fpDataGFD (g root) \<noteq> None \<and> mode = kFlushFastOnly
               \<and> ((fpImageWrapper (g root) \<noteq> None
                      \<and> \<not> iwHasFastFlush (the (fpImageWrapper (g root))))
                  \<or> (fpOuterWrapper (g root) \<noteq> None
                      \<and> \<not> owHasFastFlush (the (fpOuterWrapper (g root)))))"
    by (rule FlushImage_dirty_iff)
qed

theorem dirty_propagation_witness:
  "parent_chain heap0 (Some 1) [1, 0] \<and> fpDataGFD (heap0 1) \<noteq> None
   \<and> CopyBytesIn heap0 1 (Some (replicate 512 0xFF)) 0 512 = Some (kDIErrNone, heap_written)
   \<and> fDirty (heap_written 1) \<and> fDirty (heap_written 0)
   \<and> FlushImage heap_written 0 kFlushFastOnly = Some (kDIErrNone, heap_flushed)
   \<and> iwHasFastFlush (the (fpImageWrapper (heap_written 0)))
   \<and> fpOuterWrapper (heap_written 0) = None
   \<and> \<not> fDirty (heap_flushed 0) \<and> heap_flushed 1 = heap_written 1"
proof -
  have c: "parent_chain heap0 (Some 1) [1, 0]" "fpDataGFD (heap0 1) \<noteq> None"
    by (simp_all add: example_defs)
  from dirty_propagation [where h = heap0 and this = 1 and as = "[1, 0]"
         and buf = "Some (replicate 512 0xFF)" and offset = 0 and size' = 512
         and hw = heap_written and g = heap_written and root = 0 and mode = kFlushFastOnly
         and hf = heap_flushed]
    c heap_written_eval heap_flushed_fast_eval heap_written_wrappers
  show ?thesis by simp
qed

text \<open>
  Claim C6 as stated fails on an image without block access: the 13-sector image has
  \<open>fNumBlocks = -1\<close>, block 0 is not below it, and \<open>WriteBlock\<close> answers
  \<open>kDIErrUnsupportedAccess\<close>.
\<close>

theorem WriteBlock_no_blocks:
  "fNumBlocks (heap_d13 0) \<le> 0
   \<and> WriteBlock no_nibble_write heap_d13 0 0 (Some (replicate 512 0))
       = Some (kDIErrUnsupportedAccess, heap_d13)"
  by (simp add: WriteBlock_def Let_def heap_d13_def img_d13_def DiskImg_new_def)

text \<open>
  Claim C6, amended. On every image that has blocks, \<open>WriteBlock\<close> with a block index
  greater than or equal to \<open>fNumBlocks\<close> returns \<open>kDIErrInvalidBlock\<close> and leaves the heap,
  and with it the contents and the dirty flag of every image, unchanged.
\<close>

theorem WriteBlock_beyond_end:
  assumes "fHasBlocks (h this)" and "block \<ge> fNumBlocks (h this)"
  shows "WriteBlock WriteNibbleSector h this block buf = Some (kDIErrInvalidBlock, h)"
  using assms by (simp add: WriteBlock_def Let_def)

theorem WriteBlock_beyond_end_witness:
  "fHasBlocks (heap0 0) \<and> (4::int) \<ge> fNumBlocks (heap0 0)
   \<and> WriteBlock no_nibble_write heap0 0 4 (Some (replicate 512 0))
       = Some (kDIErrInvalidBlock, heap0)"
proof -
  have a: "fHasBlocks (heap0 0)" "(4::int) \<ge> fNumBlocks (heap0 0)"
    by (simp_all add: example_defs)
  from WriteBlock_beyond_end [where h = heap0 and this = 0 and block = 4, OF a] a
  show ?thesis by simp
qed

section \<open>Properties of the analysis, the override and the validation\<close>

text \<open>
  Claim C7. On a source of zero bytes \<open>AnalyzeImageFile\<close> returns
  \<open>kDIErrUnrecognizedFileFmt\<close> right after measuring the length: the object has only its
  three lengths set, whatever the extension and whatever the wrapper classes would answer.
\<close>

theorem AnalyzeImageFile_zero_length:
  assumes "fpWrapperGFD img = Some wg" and "gfData wg = []"
  shows "AnalyzeImageFile W ext innerExt img =
           Some (kDIErrUnrecognizedFileFmt,
                 img\<lparr>fLength := -1, fWrappedLength := 0, fOuterLength := 0\<rparr>)"
  using assms by (simp add: AnalyzeImageFile_def GFD_SeekEnd_def)

theorem AnalyzeImageFile_zero_length_witness:
  "fpWrapperGFD img_empty_source = Some \<lparr>gfData = [], gfReadOnly = True\<rparr>
   \<and> gfData \<lparr>gfData = [], gfReadOnly = True\<rparr> = []
   \<and> AnalyzeImageFile wrappers_none ''gz'' ''dsk'' img_empty_source =
       Some (kDIErrUnrecognizedFileFmt,
             img_empty_source\<lparr>fLength := -1, fWrappedLength := 0, fOuterLength := 0\<rparr>)"
proof -
  have a: "fpWrapperGFD img_empty_source = Some \<lparr>gfData = [], gfReadOnly = True\<rparr>"
    by (simp add: img_empty_source_def)
  have b: "gfData \<lparr>gfData = [], gfReadOnly = True\<rparr> = []" by simp
  from AnalyzeImageFile_zero_length [OF a b] a b show ?thesis by simp
qed

text \<open>
  Claim C8 as stated fails for a sector image: a request for 280 blocks of sectors that
  supplies a 13-sector nibble description (the geometry has 16 sectors per track) passes
  the validation.
\<close>

theorem ValidateCreateFormat_sector_request_passes:
  "fpNibbleDescr req_sectors_nd13 = Some nd13
   \<and> numSectors nd13 \<noteq> fNumSectPerTrack req_sectors_nd13
   \<and> ValidateCreateFormat req_sectors_nd13 = kDIErrNone"
  by (simp add: req_sectors_nd13_def nd13_def DiskImg_new_def ValidateCreateFormat_def
        ValidateCreateFormat_combination_def)

text \<open>
  Claim C8, amended. The validation rejects with \<open>kDIErrInvalidCreateReq\<close> every request
  whose physical format is a nibble format and whose sector order is not Physical, or
  whose supplied nibble description has a sector count different from the geometry's
  sectors per track, or 13 sectors without the 5-and-3 encoding, or 16 sectors without
  the 6-and-2 encoding.
\<close>

theorem ValidateCreateFormat_nibble_rejects:
  assumes "IsNibbleFormat (fPhysical img)"
    and "fOrder img \<noteq> kSectorOrderPhysical
         \<or> (\<exists>d. fpNibbleDescr img = Some d \<and>
                (numSectors d \<noteq> fNumSectPerTrack img
                 \<or> (numSectors d = 13 \<and> encoding d \<noteq> kNibbleEnc53)
                 \<or> (numSectors d = 16 \<and> encoding d \<noteq> kNibbleEnc62)))"
  shows "ValidateCreateFormat img = kDIErrInvalidCreateReq"
proof -
  have p: "fPhysical img \<noteq> kPhysicalFormatSectors"
    using assms(1) by (auto simp: IsNibbleFormat_def)
  have n: "\<not> ValidateCreateFormat_nibble img"
    using assms(2) by (auto simp: ValidateCreateFormat_nibble_def)
  show ?thesis using p n by (simp add: ValidateCreateFormat_def)
qed

theorem ValidateCreateFormat_nibble_rejects_witness:
  "IsNibbleFormat (fPhysical req_nibble_dos)
   \<and> fOrder req_nibble_dos \<noteq> kSectorOrderPhysical
   \<and> ValidateCreateFormat req_nibble_dos = kDIErrInvalidCreateReq"
proof -
  have a: "IsNibbleFormat (fPhysical req_nibble_dos)"
    by (simp add: req_nibble_dos_def IsNibbleFormat_def)
  have b: "fOrder req_nibble_dos \<noteq> kSectorOrderPhysical"
    by (simp add: req_nibble_dos_def)
  from ValidateCreateFormat_nibble_rejects [OF a disjI1 [OF b]] a b show ?thesis by simp
qed

text \<open>
  Claim C9. On an image whose physical format is known (sectors or nibbles, as it is once
  the image file has been analysed), \<open>OverrideFormat\<close> with the image's own physical
  format, filesystem format and sector order returns success, calls no filesystem test
  and leaves the object as it is.
\<close>

theorem OverrideFormat_same:
  assumes "IsSectorFormat (fPhysical img) \<or> IsNibbleFormat (fPhysical img)"
  shows "OverrideFormat TestFS img (fPhysical img) (fFormat img) (fOrder img)
           = (kDIErrNone, img, [])"
  using assms by (auto simp: OverrideFormat_def)

theorem OverrideFormat_same_witness:
  "(IsSectorFormat (fPhysical img_po) \<or> IsNibbleFormat (fPhysical img_po))
   \<and> OverrideFormat TestFS_fail img_po kPhysicalFormatSectors kFormatGenericProDOSOrd
       kSectorOrderProDOS = (kDIErrNone, img_po, [])"
proof -
  have a: "IsSectorFormat (fPhysical img_po) \<or> IsNibbleFormat (fPhysical img_po)"
    by (simp add: img_po_def IsSectorFormat_def)
  have b: "fPhysical img_po = kPhysicalFormatSectors"
      "fFormat img_po = kFormatGenericProDOSOrd" "fOrder img_po = kSectorOrderProDOS"
    by (simp_all add: img_po_def)
  from OverrideFormat_same [OF a, of TestFS_fail] a show ?thesis by (simp add: b)
qed

section \<open>Properties of the bad block map\<close>

lemma parent_chain_cong:
  "(\<And>a. fpParentImg (g a) = fpParentImg (h a)) \<Longrightarrow> parent_chain g p as = parent_chain h p as"
  by (induction as arbitrary: p) auto

lemma parent_chain_map:
  "parent_chain (h(b := (h b)\<lparr>fpBadBlockMap := m\<rparr>)) p as = parent_chain h p as"
  by (induction as arbitrary: p) auto

lemma parent_chain_this: "parent_chain h (Some this) as \<Longrightarrow> this \<in> set as"
  by (cases as) auto

lemma CalcSectorAndOffset_map:
  "CalcSectorAndOffset (img\<lparr>fpBadBlockMap := m\<rparr>) t s io fo = CalcSectorAndOffset img t s io fo"
  by (simp add: CalcSectorAndOffset_def)

lemma CopyBytesIn_shape:
  assumes "parent_chain h (Some this) as"
    and "CopyBytesIn h this buf offset size' = Some (e, g)"
  shows "\<exists>d x. g a = (h a)\<lparr>fDirty := d, fpDataGFD := x\<rparr>"
proof -
  have upd: "\<And>g'. parent_chain (h(this := (h this)\<lparr>fpDataGFD := g'\<rparr>)) (Some this) as"
    using assms(1) by (simp only: parent_chain_data)
  have id: "h a = (h a)\<lparr>fDirty := fDirty (h a), fpDataGFD := fpDataGFD (h a)\<rparr>" by simp
  show ?thesis
  proof (cases "\<exists>g'. g = (\<lambda>a. if a \<in> set as
                     then ((h(this := (h this)\<lparr>fpDataGFD := Some g'\<rparr>)) a)\<lparr>fDirty := True\<rparr>
                     else (h(this := (h this)\<lparr>fpDataGFD := Some g'\<rparr>)) a)")
    case True
    then obtain g' where g: "g = (\<lambda>a. if a \<in> set as
                     then ((h(this := (h this)\<lparr>fpDataGFD := Some g'\<rparr>)) a)\<lparr>fDirty := True\<rparr>
                     else (h(this := (h this)\<lparr>fpDataGFD := Some g'\<rparr>)) a)" by blast
    show ?thesis
    proof (cases "a = this")
      case True
      then have "g a = (h a)\<lparr>fDirty := True, fpDataGFD := Some g'\<rparr>"
        using g parent_chain_this [OF assms(1)] by simp
      then show ?thesis by blast
    next
      case False
      show ?thesis
      proof (cases "a \<in> set as")
        case True
        then have "g a = (h a)\<lparr>fDirty := True, fpDataGFD := fpDataGFD (h a)\<rparr>"
          using g False by simp
        then show ?thesis by blast
      next
        case False
        then have "g a = h a" using g \<open>a \<noteq> this\<close> by simp
        then show ?thesis using id by metis
      qed
    qed
  next
    case False
    then have "g = h"
      using assms(2)
      by (auto simp: CopyBytesIn_def Let_def SetDirtyUp_chain [OF upd]
               split: if_splits option.splits prod.splits)
    then show ?thesis using id by metis
  qed
qed

lemma CopyBytesIn_map:
  assumes "parent_chain h (Some this) as"
  shows "CopyBytesIn (setBadBlockMap h this m) this buf offset size'
           = map_option (\<lambda>(e, g). (e, setBadBlockMap g this m))
               (CopyBytesIn h this buf offset size')"
proof -
  let ?h' = "setBadBlockMap h this m"
  have t: "this \<in> set as" by (rule parent_chain_this [OF assms])
  have upd: "\<And>g'. parent_chain (h(this := (h this)\<lparr>fpDataGFD := g'\<rparr>)) (Some this) as"
    using assms by (simp only: parent_chain_data)
  have c': "parent_chain ?h' (Some this) as"
    using assms unfolding setBadBlockMap_def by (simp only: parent_chain_map)
  have upd': "\<And>g'. parent_chain (?h'(this := (?h' this)\<lparr>fpDataGFD := g'\<rparr>)) (Some this) as"
    using c' by (simp only: parent_chain_data)
  have fin: "\<And>g'. (\<lambda>a. if a \<in> set as
                 then ((?h'(this := (?h' this)\<lparr>fpDataGFD := Some g'\<rparr>)) a)\<lparr>fDirty := True\<rparr>
                 else (?h'(this := (?h' this)\<lparr>fpDataGFD := Some g'\<rparr>)) a)
        = setBadBlockMap (\<lambda>a. if a \<in> set as
                 then ((h(this := (h this)\<lparr>fpDataGFD := Some g'\<rparr>)) a)\<lparr>fDirty := True\<rparr>
                 else (h(this := (h this)\<lparr>fpDataGFD := Some g'\<rparr>)) a) this m"
    using t by (intro ext) (simp add: setBadBlockMap_def)
  show ?thesis
    unfolding CopyBytesIn_def
    apply (simp add: Let_def SetDirtyUp_chain [OF upd] SetDirtyUp_chain [OF upd'] fin
                split: option.splits prod.splits)
    apply (auto simp: setBadBlockMap_def)
    done
qed


lemma setBadBlockMap_this [simp]:
  "setBadBlockMap h this m this = (h this)\<lparr>fpBadBlockMap := m\<rparr>"
  by (simp add: setBadBlockMap_def)

lemma WriteTrackSector_map:
  assumes "parent_chain h (Some this) as" and "IsSectorFormat (fPhysical (h this))"
  shows "WriteTrackSector W (setBadBlockMap h this m) this t s buf
           = map_option (\<lambda>(e, g). (e, setBadBlockMap g this m))
               (WriteTrackSector W h this t s buf)"
  using assms(2)
  by (simp add: WriteTrackSector_def Let_def CalcSectorAndOffset_map
        CopyBytesIn_map [OF assms(1)] split: sum.splits prod.splits)

lemma WriteTrackSector_keeps:
  assumes "parent_chain h (Some this) as" and "IsSectorFormat (fPhysical (h this))"
    and "WriteTrackSector W h this t s buf = Some (e, g)"
  shows "parent_chain g (Some this) as \<and> IsSectorFormat (fPhysical (g this))"
proof -
  have sh: "\<And>a. \<exists>d x. g a = (h a)\<lparr>fDirty := d, fpDataGFD := x\<rparr>"
  proof -
    fix a
    have id: "h a = (h a)\<lparr>fDirty := fDirty (h a), fpDataGFD := fpDataGFD (h a)\<rparr>" by simp
    from assms(3) have "g = h \<or> (\<exists>off. CopyBytesIn h this buf off kSectorSize = Some (e, g))"
      using assms(2)
      by (auto simp: WriteTrackSector_def Let_def split: if_splits sum.splits prod.splits)
    then show "\<exists>d x. g a = (h a)\<lparr>fDirty := d, fpDataGFD := x\<rparr>"
    proof
      assume "g = h" then show ?thesis using id by metis
    next
      assume "\<exists>off. CopyBytesIn h this buf off kSectorSize = Some (e, g)"
      then obtain off where "CopyBytesIn h this buf off kSectorSize = Some (e, g)" by blast
      then show ?thesis by (rule CopyBytesIn_shape [OF assms(1)])
    qed
  qed
  have par: "\<And>a. fpParentImg (g a) = fpParentImg (h a)"
  proof -
    fix a from sh [of a] obtain d x where "g a = (h a)\<lparr>fDirty := d, fpDataGFD := x\<rparr>" by blast
    then show "fpParentImg (g a) = fpParentImg (h a)" by simp
  qed
  have phys: "fPhysical (g this) = fPhysical (h this)"
  proof -
    from sh [of this] obtain d x where "g this = (h this)\<lparr>fDirty := d, fpDataGFD := x\<rparr>" by blast
    then show ?thesis by simp
  qed
  show ?thesis
    using assms(1,2) phys by (simp add: parent_chain_cong [of g h, OF par])
qed

lemma WriteBlock_map:
  assumes c: "parent_chain h (Some this) as" and f: "IsSectorFormat (fPhysical (h this))"
  shows "WriteBlock W (setBadBlockMap h this m) this b buf
           = map_option (\<lambda>(e, g). (e, setBadBlockMap g this m)) (WriteBlock W h this b buf)"
proof -
  let ?F = "\<lambda>(e, g). (e, setBadBlockMap g this m)"
  have two: "\<And>t s1 s2 buf2.
      (case WriteTrackSector W (setBadBlockMap h this m) this t s1 buf of
         None \<Rightarrow> None
       | Some (dierr, h1) \<Rightarrow>
           if dierr \<noteq> kDIErrNone then Some (dierr, h1)
           else WriteTrackSector W h1 this t s2 buf2)
      = map_option ?F
          (case WriteTrackSector W h this t s1 buf of
             None \<Rightarrow> None
           | Some (dierr, h1) \<Rightarrow>
               if dierr \<noteq> kDIErrNone then Some (dierr, h1)
               else WriteTrackSector W h1 this t s2 buf2)"
  proof -
    fix t s1 s2 buf2
    show "?thesis t s1 s2 buf2"
    proof (cases "WriteTrackSector W h this t s1 buf")
      case None
      then show ?thesis by (simp add: WriteTrackSector_map [OF c f])
    next
      case (Some r)
      obtain e g where r: "r = (e, g)" by (cases r)
      from WriteTrackSector_keeps [OF c f Some [unfolded r]]
      have k: "parent_chain g (Some this) as" "IsSectorFormat (fPhysical (g this))"
        by simp_all
      show ?thesis
        using Some r by (simp add: WriteTrackSector_map [OF c f] WriteTrackSector_map [OF k])
    qed
  qed
  show ?thesis
  proof (cases "c_div (fNumSectPerTrack (h this)) 2")
    case None
    then show ?thesis
      unfolding WriteBlock_def
      by (auto simp: Let_def IsLinearBlocks_def CopyBytesIn_map [OF c])
  next
    case half: (Some half)
    show ?thesis
    proof (cases "c_div b half")
      case None
      then show ?thesis
        unfolding WriteBlock_def using half
        by (auto simp: Let_def IsLinearBlocks_def CopyBytesIn_map [OF c])
    next
      case (Some track)
      then show ?thesis
        unfolding WriteBlock_def using half
        by (auto simp: Let_def IsLinearBlocks_def CopyBytesIn_map [OF c] two)
    qed
  qed
qed

text \<open>
  Claim C10. With a bad block map, \<open>ReadBlock\<close> on a block of the image that is in the map
  (given a buffer) and \<open>ReadBlocks\<close> on a range of the image that contains such a block
  return \<open>kDIErrReadFailed\<close> and transfer nothing. \<open>WriteBlock\<close> does not look at the
  map: on a sector image, replacing the map by any other changes neither the error it
  returns nor what it does to the heap.
\<close>

theorem bad_block_map:
  "(fpBadBlockMap img = Some m \<and> fHasBlocks img \<and> b \<in> m \<and> 0 \<le> b \<and> b < fNumBlocks img
      \<longrightarrow> ReadBlock R img b OutBuf = Some (kDIErrReadFailed, []))
   \<and> (fpBadBlockMap img = Some m \<and> b \<in> m \<and> 0 \<le> s \<and> s \<le> b \<and> b < s + n
        \<and> s + n \<le> fNumBlocks img
      \<longrightarrow> ReadBlocks R img s n buf = Some (kDIErrReadFailed, []))
   \<and> (IsSectorFormat (fPhysical (h this)) \<and> parent_chain h (Some this) as
      \<longrightarrow> WriteBlock W (setBadBlockMap h this m') this blk wbuf
           = map_option (\<lambda>(e, g). (e, setBadBlockMap g this m')) (WriteBlock W h this blk wbuf))"
proof (intro conjI impI)
  assume a: "fpBadBlockMap img = Some m \<and> fHasBlocks img \<and> b \<in> m \<and> 0 \<le> b
             \<and> b < fNumBlocks img"
  then have "CheckForBadBlocks img b 1" by (auto simp: CheckForBadBlocks_iff)
  with a show "ReadBlock R img b OutBuf = Some (kDIErrReadFailed, [])"
    by (simp add: ReadBlock_def ReadBlockSwapped_def)
next
  assume a: "fpBadBlockMap img = Some m \<and> b \<in> m \<and> 0 \<le> s \<and> s \<le> b \<and> b < s + n
             \<and> s + n \<le> fNumBlocks img"
  then have "CheckForBadBlocks img s n" by (auto simp: CheckForBadBlocks_iff)
  with a show "ReadBlocks R img s n buf = Some (kDIErrReadFailed, [])"
    by (simp add: ReadBlocks_def)
next
  assume "IsSectorFormat (fPhysical (h this)) \<and> parent_chain h (Some this) as"
  then show "WriteBlock W (setBadBlockMap h this m') this blk wbuf
           = map_option (\<lambda>(e, g). (e, setBadBlockMap g this m')) (WriteBlock W h this blk wbuf)"
    using WriteBlock_map by blast
qed

theorem bad_block_map_witness:
  "fpBadBlockMap img_bad = Some {2} \<and> fHasBlocks img_bad \<and> (2::int) \<in> {2}
   \<and> fNumBlocks img_bad = 4
   \<and> ReadBlock no_nibble_read img_bad 2 OutBuf = Some (kDIErrReadFailed, [])
   \<and> ReadBlocks no_nibble_read img_bad 1 3 OutBuf = Some (kDIErrReadFailed, [])
   \<and> IsSectorFormat (fPhysical (heap0 0)) \<and> parent_chain heap0 (Some 0) [0]
   \<and> setBadBlockMap heap0 0 (Some {2}) 0 = img_bad
   \<and> map_option fst (WriteBlock no_nibble_write (setBadBlockMap heap0 0 (Some {2})) 0 2
                       (Some (replicate 512 9))) = Some kDIErrNone"
proof -
  have a: "fpBadBlockMap img_bad = Some {2}" "fHasBlocks img_bad" "fNumBlocks img_bad = 4"
    by (simp_all add: img_bad_def img_po_def DiskImg_new_def)
  have c: "IsSectorFormat (fPhysical (heap0 0))" "parent_chain heap0 (Some 0) [0]"
    "setBadBlockMap heap0 0 (Some {2}) 0 = img_bad"
    by (simp_all add: example_defs IsSectorFormat_def img_bad_def)
  have w: "map_option fst (WriteBlock no_nibble_write heap0 0 2 (Some (replicate 512 9)))
             = Some kDIErrNone"
    by (simp add: WriteBlock_def IsLinearBlocks_def IsSectorFormat_def CopyBytesIn_def
          Let_def GFD_Seek_def GFD_Write_def kBlockSize_def example_defs SetDirtyUp.simps)
  from bad_block_map [where img = img_bad and m = "{2}" and b = 2 and s = 1 and n = 3
         and R = no_nibble_read and buf = OutBuf and h = heap0 and this = 0 and as = "[0]"
         and W = no_nibble_write and m' = "Some {2}" and blk = 2
         and wbuf = "Some (replicate 512 9)"] a c w
  show ?thesis by (simp add: option.map_comp comp_def split_def)
qed


section \<open>Properties of the filesystem analysis\<close>

lemma decided_Nil:
  "(\<lambda>(img, called). (img\<lparr>fFormat := kFormatUnknown\<rparr>, called)) = decided TestFS []"
  by (rule ext) (simp add: decided_def split: prod.splits)

lemma decided_Cons:
  "body = probe_body p \<Longrightarrow>
   tryTestFS TestFS p body (decided TestFS ps) = decided TestFS (p # ps)"
  by (rule ext) (simp add: tryTestFS_def decided_def Let_def split: prod.splits)

lemma AnalyzeImageFS_decided:
  "AnalyzeImageFS TestFS img =
     (case decided TestFS probe_order (img, []) of
        (img, called) \<Rightarrow> (img\<lparr>fFileSysOrder := CalcFSSectorOrder img\<rparr>, called))"
proof -
  have n: "(\<lambda>(img, called). (img\<lparr>fFormat := kFormatUnknown\<rparr>, called)) = decided TestFS []"
    by (rule decided_Nil)
  show ?thesis
    unfolding AnalyzeImageFS_def probe_order_def n
    by (simp add: decided_Cons probe_body_def)
qed

lemma first_success_called:
  "first_success TestFS ps img c = (r, img', called) \<Longrightarrow>
   \<exists>n \<le> length ps. called = c @ take n ps
      \<and> (case r of None \<Rightarrow> n = length ps | Some p \<Rightarrow> 0 < n \<and> ps ! (n - 1) = p)"
proof (induction ps arbitrary: img c)
  case Nil
  then show ?case by auto
next
  case (Cons p ps)
  obtain e ord fmt where t: "TestFS p img (fOrder img) (fFormat img) kLeniencyNot = (e, ord, fmt)"
    by (cases "TestFS p img (fOrder img) (fFormat img) kLeniencyNot") auto
  show ?case
  proof (cases "e = kDIErrNone")
    case True
    with Cons.prems t have "r = Some p" "called = c @ [p]" by auto
    then show ?thesis by (intro exI [of _ 1]) simp
  next
    case False
    with Cons.prems t have
      "first_success TestFS ps (img\<lparr>fOrder := ord, fFormat := fmt\<rparr>) (c @ [p]) = (r, img', called)"
      by simp
    from Cons.IH [OF this] obtain n where n: "n \<le> length ps" "called = (c @ [p]) @ take n ps"
        "(case r of None \<Rightarrow> n = length ps | Some q \<Rightarrow> 0 < n \<and> ps ! (n - 1) = q)"
      by blast
    show ?thesis
      using n by (intro exI [of _ "Suc n"]) (auto split: option.splits)
  qed
qed

lemma first_success_geometry:
  "first_success TestFS ps img c = (r, img', called) \<Longrightarrow>
   fNumSectPerTrack img' = fNumSectPerTrack img"
proof (induction ps arbitrary: img c)
  case Nil
  then show ?case by auto
next
  case (Cons p ps)
  obtain e ord fmt where t: "TestFS p img (fOrder img) (fFormat img) kLeniencyNot = (e, ord, fmt)"
    by (cases "TestFS p img (fOrder img) (fFormat img) kLeniencyNot") auto
  show ?case
  proof (cases "e = kDIErrNone")
    case True
    with Cons.prems t show ?thesis by auto
  next
    case False
    with Cons.prems t have
      "first_success TestFS ps (img\<lparr>fOrder := ord, fFormat := fmt\<rparr>) (c @ [p]) = (r, img', called)"
      by simp
    from Cons.IH [OF this] show ?thesis by simp
  qed
qed

text \<open>
  Claim C4. \<open>AnalyzeImageFS\<close> calls the filesystem tests in the order MacPart, MicroDrive,
  FocusDrive, CFFA, FAT, DOS 3.x, wide UNIDOS, UNIDOS, OzDOS, ProDOS, Pascal, CP/M, RDOS,
  HFS, each on the object as the failed tests before it left it, and stops at the first
  that succeeds: the tests called are a prefix of that list ending with the successful
  one, or the whole list when all fail. The format is the one the successful test left
  (a DOS success on a 13-sector image being recorded as DOS 3.2), and
  \<open>kFormatUnknown\<close> when all fail; the function returns no error.
\<close>

theorem AnalyzeImageFS_first_success:
  "case first_success TestFS probe_order img [] of
     (r, img', called) \<Rightarrow>
       snd (AnalyzeImageFS TestFS img) = called
     \<and> (\<exists>n \<le> 14. called = take n probe_order
           \<and> (case r of None \<Rightarrow> n = 14 | Some p \<Rightarrow> 0 < n \<and> probe_order ! (n - 1) = p))
     \<and> fFormat (fst (AnalyzeImageFS TestFS img)) =
         (case r of
            None \<Rightarrow> kFormatUnknown
          | Some p \<Rightarrow> if p = DiskFSDOS33 \<and> fNumSectPerTrack img = 13 then kFormatDOS32
                      else fFormat img')
     \<and> fOrder (fst (AnalyzeImageFS TestFS img)) = fOrder img'"
proof -
  obtain r img' called where f: "first_success TestFS probe_order img [] = (r, img', called)"
    by (cases "first_success TestFS probe_order img []") auto
  have len: "length probe_order = 14" by (simp add: probe_order_def)
  have c: "\<exists>n \<le> 14. called = take n probe_order
           \<and> (case r of None \<Rightarrow> n = 14 | Some p \<Rightarrow> 0 < n \<and> probe_order ! (n - 1) = p)"
    using first_success_called [OF f] unfolding len by simp
  have g: "fNumSectPerTrack img' = fNumSectPerTrack img"
    by (rule first_success_geometry [OF f])
  have a: "AnalyzeImageFS TestFS img =
      (case r of
         None \<Rightarrow> ((img'\<lparr>fFormat := kFormatUnknown\<rparr>)
                     \<lparr>fFileSysOrder := CalcFSSectorOrder (img'\<lparr>fFormat := kFormatUnknown\<rparr>)\<rparr>, called)
       | Some p \<Rightarrow> ((probe_body p img')
                     \<lparr>fFileSysOrder := CalcFSSectorOrder (probe_body p img')\<rparr>, called))"
    using f by (simp add: AnalyzeImageFS_decided decided_def split: option.splits)
  have s: "snd (AnalyzeImageFS TestFS img) = called"
    by (simp add: a split: option.splits)
  have fm: "fFormat (fst (AnalyzeImageFS TestFS img)) =
         (case r of
            None \<Rightarrow> kFormatUnknown
          | Some p \<Rightarrow> if p = DiskFSDOS33 \<and> fNumSectPerTrack img = 13 then kFormatDOS32
                      else fFormat img')"
    using g by (simp add: a probe_body_def fixDOS32_def widen32_def split: option.splits)
  have od: "fOrder (fst (AnalyzeImageFS TestFS img)) = fOrder img'"
    by (simp add: a probe_body_def fixDOS32_def widen32_def split: option.splits)
  show ?thesis using f c s fm od by simp
qed

lemma fs_prodos: "first_success TestFS_prodos probe_order img_po [] =
   (Some DiskFSProDOS, img_po\<lparr>fOrder := kSectorOrderProDOS, fFormat := kFormatProDOS\<rparr>,
    [DiskFSMacPart, DiskFSMicroDrive, DiskFSFocusDrive, DiskFSCFFA, DiskFSFAT, DiskFSDOS33,
      DiskFSUNIDOS_Wide, DiskFSUNIDOS, DiskFSOzDOS, DiskFSProDOS])"
  by (simp add: probe_order_def TestFS_prodos_def img_po_def)

lemma fs_fail: "first_success TestFS_fail probe_order img_po [] = (None, img_po, probe_order)"
  by (simp add: probe_order_def TestFS_fail_def img_po_def)

lemma fs_dos33: "first_success TestFS_dos33 probe_order img_d13 [] =
   (Some DiskFSDOS33, img_d13\<lparr>fOrder := kSectorOrderDOS, fFormat := kFormatDOS33\<rparr>,
    [DiskFSMacPart, DiskFSMicroDrive, DiskFSFocusDrive, DiskFSCFFA, DiskFSFAT, DiskFSDOS33])"
  by (simp add: probe_order_def TestFS_dos33_def img_d13_def)

theorem AnalyzeImageFS_first_success_witness:
  "snd (AnalyzeImageFS TestFS_prodos img_po) =
     [DiskFSMacPart, DiskFSMicroDrive, DiskFSFocusDrive, DiskFSCFFA, DiskFSFAT, DiskFSDOS33,
      DiskFSUNIDOS_Wide, DiskFSUNIDOS, DiskFSOzDOS, DiskFSProDOS]
   \<and> fFormat (fst (AnalyzeImageFS TestFS_prodos img_po)) = kFormatProDOS
   \<and> snd (AnalyzeImageFS TestFS_fail img_po) = probe_order
   \<and> fFormat (fst (AnalyzeImageFS TestFS_fail img_po)) = kFormatUnknown
   \<and> fFormat (fst (AnalyzeImageFS TestFS_dos33 img_d13)) = kFormatDOS32"
proof -
  have d: "fNumSectPerTrack img_d13 = 13" by (simp add: img_d13_def)
  show ?thesis
    using AnalyzeImageFS_first_success [of TestFS_prodos img_po]
          AnalyzeImageFS_first_success [of TestFS_fail img_po]
          AnalyzeImageFS_first_success [of TestFS_dos33 img_d13]
    by (simp add: fs_prodos fs_fail fs_dos33 d)
qed


section \<open>Properties of an image opened with a damaged checksum\<close>

lemma AddNote_checksum:
  "fNotes (AddNote img kNoteWarning ''File checksum didn't match.'')
     = Some ((case fNotes img of None \<Rightarrow> [] | Some n \<Rightarrow> n) @ checksum_warning)"
  by (simp add: AddNote_def checksum_warning_def Let_def split: option.splits)

lemma AddNote_fields:
  "fpImageWrapper (AddNote img t msg) = fpImageWrapper img"
  by (simp add: AddNote_def Let_def split: option.splits)

lemma byExt_damage:
  "AnalyzeImageFile_byExt (report_damage W) ext wg img = AnalyzeImageFile_byExt W ext wg img"
  by (simp add: AnalyzeImageFile_byExt_def report_damage_def)

lemma probe_damage:
  "AnalyzeImageFile_probe (report_damage W) wg img = AnalyzeImageFile_probe W wg img"
  by (simp add: AnalyzeImageFile_probe_def report_damage_def)

lemma outer_damage:
  "AnalyzeImageFile_outer (report_damage W) ext innerExt wg img
     = AnalyzeImageFile_outer W ext innerExt wg img"
  by (simp add: AnalyzeImageFile_outer_def report_damage_def Let_def)

lemma newWrapper_cases:
  assumes "fpImageWrapper img = None"
  shows "(\<exists>c. AnalyzeImageFile_newWrapper W pf d img
                = (d, img\<lparr>fpImageWrapper := Some (Wrapper_new W c)\<rparr>)
            \<and> AnalyzeImageFile_newWrapper (report_damage W) pf d img
                = (d, img\<lparr>fpImageWrapper := Some (Wrapper_new (report_damage W) c)\<rparr>))
       \<or> (\<exists>c. AnalyzeImageFile_newWrapper W pf d img
                = (d, img\<lparr>fpImageWrapper := Some (Wrapper_new W c), fReadOnly := True\<rparr>)
            \<and> AnalyzeImageFile_newWrapper (report_damage W) pf d img
                = (d, img\<lparr>fpImageWrapper := Some (Wrapper_new (report_damage W) c),
                          fReadOnly := True\<rparr>))
       \<or> (\<exists>e. AnalyzeImageFile_newWrapper W pf d img = (e, img)
            \<and> AnalyzeImageFile_newWrapper (report_damage W) pf d img = (e, img))"
  by (cases pf) (auto simp: AnalyzeImageFile_newWrapper_def Let_def)

lemma prep_damage:
  assumes "fpImageWrapper img = None"
  shows "fst (AnalyzeImageFile_prep (report_damage W) wg pf d img)
           = fst (AnalyzeImageFile_prep W wg pf d img)
       \<and> opened_damaged (AnalyzeImageFile_prep (report_damage W) wg pf d img)"
proof -
  have prep: "\<And>c g len ro pv. iwPrep (Wrapper_new (report_damage W) c) g len ro pv
       = (case iwPrep (Wrapper_new W c) g len ro pv of (e, pv', dm) \<Rightarrow> (e, pv', True))"
    by (simp add: report_damage_def)
  from newWrapper_cases [OF assms, of W pf d]
  show ?thesis
  proof (elim disjE exE conjE)
    fix c
    assume a: "AnalyzeImageFile_newWrapper W pf d img
                = (d, img\<lparr>fpImageWrapper := Some (Wrapper_new W c)\<rparr>)"
      and b: "AnalyzeImageFile_newWrapper (report_damage W) pf d img
                = (d, img\<lparr>fpImageWrapper := Some (Wrapper_new (report_damage W) c)\<rparr>)"
    show ?thesis
      unfolding AnalyzeImageFile_prep_def a b opened_damaged_def
      by (simp add: prep Let_def AddNote_checksum split: prod.splits)
  next
    fix c
    assume a: "AnalyzeImageFile_newWrapper W pf d img
                = (d, img\<lparr>fpImageWrapper := Some (Wrapper_new W c), fReadOnly := True\<rparr>)"
      and b: "AnalyzeImageFile_newWrapper (report_damage W) pf d img
                = (d, img\<lparr>fpImageWrapper := Some (Wrapper_new (report_damage W) c),
                          fReadOnly := True\<rparr>)"
    show ?thesis
      unfolding AnalyzeImageFile_prep_def a b opened_damaged_def
      by (simp add: prep Let_def AddNote_checksum split: prod.splits)
  next
    fix e
    assume a: "AnalyzeImageFile_newWrapper W pf d img = (e, img)"
      and b: "AnalyzeImageFile_newWrapper (report_damage W) pf d img = (e, img)"
    show ?thesis
      unfolding AnalyzeImageFile_prep_def a b opened_damaged_def
      using assms by simp
  qed
qed

lemma byExt_wrapper:
  "AnalyzeImageFile_byExt W ext wg img = (e, rel, pf, img') \<Longrightarrow>
   fpImageWrapper img' = fpImageWrapper img"
  by (auto simp: AnalyzeImageFile_byExt_def Let_def split: if_splits)

lemma probe_wrapper:
  "AnalyzeImageFile_probe W wg img = (bail, e, pf, img') \<Longrightarrow>
   fpImageWrapper img' = fpImageWrapper img \<and> (bail \<longrightarrow> e \<noteq> kDIErrNone)"
  by (auto simp: AnalyzeImageFile_probe_def Let_def split: if_splits)

lemma format_damage:
  assumes "fpImageWrapper img = None"
  shows "fst (AnalyzeImageFile_format (report_damage W) ext wg img)
           = fst (AnalyzeImageFile_format W ext wg img)
       \<and> opened_damaged (AnalyzeImageFile_format (report_damage W) ext wg img)"
proof -
  obtain e rel pf img1 where b: "AnalyzeImageFile_byExt W ext wg img = (e, rel, pf, img1)"
    by (cases "AnalyzeImageFile_byExt W ext wg img") auto
  have w1: "fpImageWrapper img1 = None" using byExt_wrapper [OF b] assms by simp
  obtain bail e2 pf2 img2 where p: "AnalyzeImageFile_probe W wg img1 = (bail, e2, pf2, img2)"
    by (cases "AnalyzeImageFile_probe W wg img1") auto
  have w2: "fpImageWrapper img2 = None" "bail \<longrightarrow> e2 \<noteq> kDIErrNone"
    using probe_wrapper [OF p] w1 by simp_all
  show ?thesis
    unfolding AnalyzeImageFile_format_def byExt_damage probe_damage b
    using prep_damage [OF w1, of W wg pf kDIErrNone] prep_damage [OF w2(1), of W wg pf2 e2]
      w2(2)
    by (simp add: p opened_damaged_def)
qed

lemma AnalyzeImageFile_damaged:
  assumes "fpImageWrapper img = None"
  shows "map_option fst (AnalyzeImageFile (report_damage W) ext ie img)
           = map_option fst (AnalyzeImageFile W ext ie img)
       \<and> (\<forall>img2. AnalyzeImageFile (report_damage W) ext ie img = Some (kDIErrNone, img2)
             \<longrightarrow> fReadOnly img2 \<and> (\<exists>old. fNotes img2 = Some (old @ checksum_warning)))"
proof -
  let ?G = "\<lambda>A B. map_option fst B = map_option fst A
       \<and> (\<forall>img2. B = Some (kDIErrNone, img2)
             \<longrightarrow> fReadOnly img2 \<and> (\<exists>old. fNotes img2 = Some (old @ checksum_warning)))"
  have lift: "\<And>ext' wg' img'. fpImageWrapper img' = None \<Longrightarrow>
      ?G (Some (AnalyzeImageFile_format W ext' wg' img'))
         (Some (AnalyzeImageFile_format (report_damage W) ext' wg' img'))"
  proof -
    fix ext' wg' and img' :: DiskImg assume "fpImageWrapper img' = None"
    from format_damage [OF this, of W ext' wg']
    show "?G (Some (AnalyzeImageFile_format W ext' wg' img'))
         (Some (AnalyzeImageFile_format (report_damage W) ext' wg' img'))"
      by (auto simp: opened_damaged_def)
  qed
  show ?thesis
  proof (cases "fpWrapperGFD img")
    case None
    then show ?thesis by (simp add: AnalyzeImageFile_def)
  next
    case (Some wg)
    let ?img1 = "img\<lparr>fLength := -1, fWrappedLength := int (length (gfData wg)),
                      fOuterLength := int (length (gfData wg))\<rparr>"
    show ?thesis
    proof (cases "gfData wg = []")
      case True
      then show ?thesis using Some by (simp add: AnalyzeImageFile_def GFD_SeekEnd_def)
    next
      case False
      obtain e need ext1 img2 where
        o: "AnalyzeImageFile_outer W ext ie wg ?img1 = (e, need, ext1, img2)"
        by (cases "AnalyzeImageFile_outer W ext ie wg ?img1") auto
      have w2: "fpImageWrapper img2 = None"
        using o assms
        by (auto simp: AnalyzeImageFile_outer_def Let_def split: if_splits)
      obtain dierr wrappedLen pNewGFD damaged where
        l: "owLoad (the (fpOuterWrapper img2)) wg (fOuterLength img2) (fReadOnly img2)
              (fWrappedLength img2) = (dierr, wrappedLen, pNewGFD, damaged)"
        by (cases "owLoad (the (fpOuterWrapper img2)) wg (fOuterLength img2) (fReadOnly img2)
              (fWrappedLength img2)") auto
      let ?img3 = "img2\<lparr>fWrappedLength := wrappedLen,
                   fpOuterWrapper := Some ((the (fpOuterWrapper img2))\<lparr>owIsDamaged := damaged\<rparr>)\<rparr>"
      let ?img4 = "if damaged then
                     (AddNote ?img3 kNoteWarning ''The zip/gzip wrapper appears to be damaged.'')
                       \<lparr>fReadOnly := True\<rparr>
                   else ?img3"
      let ?img5 = "?img4\<lparr>fpOuterGFD := fpWrapperGFD ?img4, fpWrapperGFD := pNewGFD\<rparr>"
      let ?ext2 = "if need then
                     (case owGetExtension (the (fpOuterWrapper img2)) of None \<Rightarrow> [] | Some x \<Rightarrow> x)
                   else ext1"
      have w5: "fpImageWrapper ?img5 = None"
        using w2 by (simp add: AddNote_fields)
      have top: "\<And>V. AnalyzeImageFile_outer V ext ie wg ?img1 = (e, need, ext1, img2) \<Longrightarrow>
         AnalyzeImageFile V ext ie img =
          (if e \<noteq> kDIErrNone then Some (e, img2)
           else if fOuterFormat img2 = kOuterFormatNone then
             Some (AnalyzeImageFile_format V ext1 wg img2)
           else if fpOuterWrapper img2 = None then None
           else if dierr \<noteq> kDIErrNone then Some (dierr, ?img3)
           else if pNewGFD = None then None
           else Some (AnalyzeImageFile_format V ?ext2 (the pNewGFD) ?img5))"
        using Some False l
        by (auto simp: AnalyzeImageFile_def GFD_SeekEnd_def Let_def split: option.splits)
      have o': "AnalyzeImageFile_outer (report_damage W) ext ie wg ?img1 = (e, need, ext1, img2)"
        using o by (simp add: outer_damage)
      show ?thesis
        unfolding top [OF o] top [OF o']
        using lift [OF w2, of ext1 wg] lift [OF w5, of ?ext2 "the pNewGFD"]
        by (simp del: map_option_eq_Some)
    qed
  qed
qed

lemma strcase_dsk:
  "\<not> strcaseeq ''dsk'' ''gz''" "\<not> strcaseeq ''dsk'' ''zip''" "\<not> strcaseeq ''dsk'' ''2mg''"
  "\<not> strcaseeq ''dsk'' ''2img''" "\<not> strcaseeq ''dsk'' ''shk''" "\<not> strcaseeq ''dsk'' ''sdk''"
  "\<not> strcaseeq ''dsk'' ''bxy''" "\<not> strcaseeq ''dsk'' ''hdv''" "strcaseeq ''dsk'' ''dsk''"
  by (simp_all add: strcaseeq_def c_tolower_def)

lemma dc42_open:
  "AnalyzeImageFile (report_damage wrappers_dc42) ''dsk'' [] img_dc42_src =
     Some (kDIErrNone,
       DiskImg_new\<lparr> fOuterFormat := kOuterFormatNone, fFileFormat := kFileFormatDiskCopy42,
         fPhysical := kPhysicalFormatSectors, fOrder := kSectorOrderProDOS,
         fpWrapperGFD := Some \<lparr>gfData = replicate 819284 0, gfReadOnly = False\<rparr>,
         fpDataGFD := Some \<lparr>gfData = replicate 819200 0, gfReadOnly = False\<rparr>,
         fpImageWrapper := Some (Wrapper_new (report_damage wrappers_dc42) WrapperDiskCopy42
                                   \<lparr>iwIsDamaged := True\<rparr>),
         fOuterLength := 819284, fWrappedLength := 819284, fLength := 819200,
         fReadOnly := True, fNotes := Some checksum_warning \<rparr>)"
  by (simp add: AnalyzeImageFile_def AnalyzeImageFile_outer_def AnalyzeImageFile_format_def
        AnalyzeImageFile_byExt_def AnalyzeImageFile_prep_def AnalyzeImageFile_newWrapper_def
        GFD_SeekEnd_def strcase_dsk Let_def report_damage_def wrappers_dc42_def
        dc42_wrapper_def img_dc42_src_def DiskImg_new_def AddNote_def checksum_warning_def)

lemma img_dc42_opened_fields:
  "fReadOnly img_dc42_opened" "fHasBlocks img_dc42_opened" "fNumBlocks img_dc42_opened = 1600"
  "fNotes img_dc42_opened = Some checksum_warning"
  "fFileFormat img_dc42_opened = kFileFormatDiskCopy42"
  by (simp_all add: img_dc42_opened_def dc42_open)

text \<open>
  Claim C5 as stated fails in its last part. The DiskCopy 4.2 file whose wrapper reports a
  damaged checksum opens, read-only and with the warning noted; on it \<open>WriteBlock\<close> at
  block 1600 of 1600 returns \<open>kDIErrInvalidBlock\<close> and \<open>WriteBlock\<close> with a nil buffer
  returns \<open>kDIErrInvalidArg\<close>, not \<open>kDIErrAccessDenied\<close>.
\<close>

theorem writes_on_damaged_not_all_denied:
  "AnalyzeImageFile (report_damage wrappers_dc42) ''dsk'' [] img_dc42_src \<noteq> None
   \<and> fst (the (AnalyzeImageFile (report_damage wrappers_dc42) ''dsk'' [] img_dc42_src))
       = kDIErrNone
   \<and> fReadOnly (heap_dc42 0) \<and> fNotes (heap_dc42 0) = Some checksum_warning
   \<and> WriteBlock no_nibble_write heap_dc42 0 1600 (Some (replicate 512 0))
       = Some (kDIErrInvalidBlock, heap_dc42)
   \<and> WriteBlock no_nibble_write heap_dc42 0 0 None = Some (kDIErrInvalidArg, heap_dc42)"
proof -
  have h0: "heap_dc42 0 = img_dc42_opened" by (simp add: heap_dc42_def)
  show ?thesis
    by (simp add: dc42_open WriteBlock_def Let_def h0 img_dc42_opened_fields)
qed

lemma readonly_CopyBytesIn:
  "fReadOnly (h this) \<Longrightarrow> CopyBytesIn h this buf offset size' = Some (kDIErrAccessDenied, h)"
  by (simp add: CopyBytesIn_def Let_def)

lemma readonly_WriteTrackSector:
  "fReadOnly (h this) \<Longrightarrow>
   WriteTrackSector W h this t s (Some bs) = Some (kDIErrAccessDenied, h)"
  by (simp add: WriteTrackSector_def Let_def)

lemma readonly_WriteBlock:
  "fReadOnly (h this) \<Longrightarrow> fHasBlocks (h this) \<Longrightarrow> 0 \<le> b \<Longrightarrow> b < fNumBlocks (h this) \<Longrightarrow>
   WriteBlock W h this b (Some bs) = Some (kDIErrAccessDenied, h)"
  by (simp add: WriteBlock_def Let_def)

lemma readonly_WriteBlocks:
  assumes "fReadOnly (h this)" "fHasBlocks (h this)" "0 \<le> s" "0 < n"
    and "n + s \<le> fNumBlocks (h this)"
  shows "WriteBlocks W h this s n (Some bs) = Some (kDIErrAccessDenied, h)"
proof -
  have b: "WriteBlock W h this s (Some bs) = Some (kDIErrAccessDenied, h)"
    using assms by (intro readonly_WriteBlock) simp_all
  have l: "WriteBlocks_loop W h this s n (Some bs) = Some (kDIErrAccessDenied, h)"
    using assms(4) b by (subst WriteBlocks_loop.simps) simp
  show ?thesis
    using assms l by (simp add: WriteBlocks_def Let_def readonly_CopyBytesIn)
qed

text \<open>
  Claim C5, amended. Whether the image wrapper reports a damaged checksum after \<open>Prep\<close>
  does not change the error that \<open>AnalyzeImageFile\<close> returns, so a file that opens opens
  all the same; when it reports one and the analysis succeeds, the image is read-only and
  its notes end with the checksum warning. On a read-only image \<open>CopyBytesIn\<close> returns
  \<open>kDIErrAccessDenied\<close>, and so do \<open>WriteTrackSector\<close> with a buffer, \<open>WriteBlock\<close>
  with a buffer and a block of the image, and \<open>WriteBlocks\<close> with a buffer and a
  non-empty range of the image; the heap is unchanged.
\<close>

theorem damaged_checksum:
  "(fpImageWrapper img = None \<longrightarrow>
      map_option fst (AnalyzeImageFile (report_damage W) ext ie img)
        = map_option fst (AnalyzeImageFile W ext ie img)
      \<and> (\<forall>img2. AnalyzeImageFile (report_damage W) ext ie img = Some (kDIErrNone, img2)
            \<longrightarrow> fReadOnly img2 \<and> (\<exists>old. fNotes img2 = Some (old @ checksum_warning))))
   \<and> (fReadOnly (h this) \<longrightarrow>
        CopyBytesIn h this buf offset size' = Some (kDIErrAccessDenied, h)
      \<and> WriteTrackSector WNS h this t sec (Some bs) = Some (kDIErrAccessDenied, h)
      \<and> (fHasBlocks (h this) \<and> 0 \<le> b \<and> b < fNumBlocks (h this) \<longrightarrow>
           WriteBlock WNS h this b (Some bs) = Some (kDIErrAccessDenied, h))
      \<and> (fHasBlocks (h this) \<and> 0 \<le> s \<and> 0 < n \<and> n + s \<le> fNumBlocks (h this) \<longrightarrow>
           WriteBlocks WNS h this s n (Some bs) = Some (kDIErrAccessDenied, h)))"
  using AnalyzeImageFile_damaged [of img W ext ie] readonly_CopyBytesIn [of h this]
    readonly_WriteTrackSector [of h this] readonly_WriteBlock [of h this b]
    readonly_WriteBlocks [of h this s n]
  by blast

theorem damaged_checksum_witness:
  "fpImageWrapper img_dc42_src = None
   \<and> map_option fst (AnalyzeImageFile wrappers_dc42 ''dsk'' [] img_dc42_src) = Some kDIErrNone
   \<and> map_option fst (AnalyzeImageFile (report_damage wrappers_dc42) ''dsk'' [] img_dc42_src)
       = Some kDIErrNone
   \<and> fReadOnly (heap_dc42 0) \<and> fHasBlocks (heap_dc42 0) \<and> fNumBlocks (heap_dc42 0) = 1600
   \<and> fNotes (heap_dc42 0) = Some checksum_warning
   \<and> WriteBlock no_nibble_write heap_dc42 0 1599 (Some (replicate 512 0))
       = Some (kDIErrAccessDenied, heap_dc42)
   \<and> WriteBlocks no_nibble_write heap_dc42 0 0 1600 (Some (replicate 512 0))
       = Some (kDIErrAccessDenied, heap_dc42)
   \<and> WriteTrackSector no_nibble_write heap_dc42 0 0 0 (Some (replicate 512 0))
       = Some (kDIErrAccessDenied, heap_dc42)"
proof -
  have h0: "heap_dc42 0 = img_dc42_opened" by (simp add: heap_dc42_def)
  have a: "fpImageWrapper img_dc42_src = None"
    by (simp add: img_dc42_src_def DiskImg_new_def)
  have r: "fReadOnly (heap_dc42 0)" "fHasBlocks (heap_dc42 0)"
    "fNumBlocks (heap_dc42 0) = 1600" "fNotes (heap_dc42 0) = Some checksum_warning"
    by (simp_all add: h0 img_dc42_opened_fields)
  have d: "map_option fst
             (AnalyzeImageFile (report_damage wrappers_dc42) ''dsk'' [] img_dc42_src)
           = Some kDIErrNone"
    by (simp add: dc42_open)
  note t = damaged_checksum [where img = img_dc42_src and W = wrappers_dc42
      and ext = "''dsk''" and ie = "[]" and h = heap_dc42 and this = 0
      and WNS = no_nibble_write and t = 0 and sec = 0 and bs = "replicate 512 0"
      and b = 1599 and s = 0 and n = 1600 and buf = None and offset = 0 and size' = 0]
  from t a d have p: "map_option fst (AnalyzeImageFile wrappers_dc42 ''dsk'' [] img_dc42_src)
      = Some kDIErrNone"
    by (simp del: map_option_eq_Some)
  from t r have w: "WriteBlock no_nibble_write heap_dc42 0 1599 (Some (replicate 512 0))
       = Some (kDIErrAccessDenied, heap_dc42)"
    "WriteBlocks no_nibble_write heap_dc42 0 0 1600 (Some (replicate 512 0))
       = Some (kDIErrAccessDenied, heap_dc42)"
    "WriteTrackSector no_nibble_write heap_dc42 0 0 0 (Some (replicate 512 0))
       = Some (kDIErrAccessDenied, heap_dc42)"
    by simp_all
  show ?thesis using a p d r w by (simp del: map_option_eq_Some)
qed

end
